theory Spec2Isabelle
  imports Main "HOL-Library.AList" "HOL-Library.Sublist"
begin

section \<open>Values, items and tables\<close>

text \<open>
  The storage layer of the Data API (\<^verbatim>\<open>chalicelib/dynamo_data_api.py\<close>) keeps Resource and
  Metadata items in two DynamoDB tables with a string hash key. An item is a Python
  dictionary from attribute names to values; it is modelled as an association list, read
  with \<^const>\<open>map_of\<close>, written with \<^const>\<open>AList.update\<close> (\<^verbatim>\<open>d[k] = v\<close>) and
  \<^const>\<open>AList.delete\<close> (\<^verbatim>\<open>d.pop(k, None)\<close>, \<^verbatim>\<open>del d[k]\<close>), and iterated in list order
  (\<^verbatim>\<open>d.items()\<close>). A table maps the value of the hash key to the stored item, which
  carries its own key attribute.
\<close>

datatype val = S string | N int | B bool

type_synonym item = "(string \<times> val) list"

type_synonym table = "(string \<times> item) list"

text \<open>The exceptions of \<^verbatim>\<open>chalicelib/exceptions.py\<close>, the Python run-time errors the
  code can raise, and the client error of the store's SDK that the code lets through.\<close>

datatype error =
    ConstraintViolationException
  | UnimplementedFeatureException
  | ResourceNotFoundException
  | InvalidArgumentsException
  | DetailedException
  | TypeError
  | KeyError
  | ZeroDivisionError
  | ClientError

section \<open>Constants of the parameters module\<close>

text \<open>
  The module \<^verbatim>\<open>chalicelib/parameters.py\<close> is not among the sources. The attribute names
  the specification spells out are defined from it; the constants on which it is silent,
  and the deleted marker (for which \<^verbatim>\<open>restore\<close> uses a literal of its own), are fields
  of the record \<open>parameters\<close>: the general theorems hold for every value of them.
\<close>

definition ITEM_MASTER_ID :: string where
  \<comment> \<open>Modelled from the spec: \<^verbatim>\<open>params.ITEM_MASTER_ID\<close>, the reserved field \<^verbatim>\<open>ItemMasterID\<close>.\<close>
  "ITEM_MASTER_ID = ''ItemMasterID''"

definition ITEM_VERSION :: string where
  \<comment> \<open>Modelled from the spec: \<^verbatim>\<open>params.ITEM_VERSION\<close>, the reserved field \<^verbatim>\<open>ItemVersion\<close>.\<close>
  "ITEM_VERSION = ''ItemVersion''"

definition TOMBSTONED :: string where
  \<comment> \<open>Modelled from the spec: \<^verbatim>\<open>params.TOMBSTONED\<close>, the reserved field \<^verbatim>\<open>Tombstoned\<close>.\<close>
  "TOMBSTONED = ''Tombstoned''"

definition LAST_UPDATE_DATE :: string where
  \<comment> \<open>Modelled from the spec: \<^verbatim>\<open>params.LAST_UPDATE_DATE\<close>, the field \<^verbatim>\<open>LastUpdateDate\<close>.\<close>
  "LAST_UPDATE_DATE = ''LastUpdateDate''"

definition LAST_UPDATED_BY :: string where
  \<comment> \<open>Modelled from the spec: \<^verbatim>\<open>params.LAST_UPDATED_BY\<close>, the field \<^verbatim>\<open>LastUpdatedBy\<close>.\<close>
  "LAST_UPDATED_BY = ''LastUpdatedBy''"

definition LAST_UPDATE_ACTION :: string where
  \<comment> \<open>Modelled from the spec: \<^verbatim>\<open>params.LAST_UPDATE_ACTION\<close>, the field \<^verbatim>\<open>LastUpdateAction\<close>.\<close>
  "LAST_UPDATE_ACTION = ''LastUpdateAction''"

definition DELETE_MODE_TOMBSTONE :: string where
  \<comment> \<open>Modelled from the spec: \<^verbatim>\<open>params.DELETE_MODE_TOMBSTONE\<close>, the delete mode \<^verbatim>\<open>tombstone\<close>.\<close>
  "DELETE_MODE_TOMBSTONE = ''tombstone''"

definition ITEM_MASTER_INCLUDE :: string where
  \<comment> \<open>Modelled from the spec: \<^verbatim>\<open>params.ITEM_MASTER_INCLUDE\<close>, the master option \<^verbatim>\<open>include\<close>.\<close>
  "ITEM_MASTER_INCLUDE = ''include''"

definition ITEM_MASTER_PREFER :: string where
  \<comment> \<open>Modelled from the spec: \<^verbatim>\<open>params.ITEM_MASTER_PREFER\<close>, the master option \<^verbatim>\<open>prefer\<close>.\<close>
  "ITEM_MASTER_PREFER = ''prefer''"

definition SET :: string where
  \<comment> \<open>Modelled from the spec: \<^verbatim>\<open>params.SET\<close>, the keyword of the assignment clause.\<close>
  "SET = ''SET''"

definition REMOVE :: string where
  \<comment> \<open>Modelled from the spec: \<^verbatim>\<open>params.REMOVE\<close>, the keyword of the removal clause.\<close>
  "REMOVE = ''REMOVE''"

definition ADD :: string where
  \<comment> \<open>Modelled from the spec: \<^verbatim>\<open>params.ADD\<close>, the keyword of the increment clause.\<close>
  "ADD = ''ADD''"

record parameters =
  DELETED :: string
  APP :: string
  ACTION_UPDATE :: string
  ACTION_DELETE :: string
  ACTION_RESTORE :: string
  ACTION_REMOVE_ATTRIBUTE :: string
  DEFAULT_MAX_RESPONSE_SIZE :: nat
  AWS_DATA_API_SHORTNAME :: string

section \<open>Texts\<close>

text \<open>The operations of Python on texts that the code uses, on the characters of ASCII:
  \<^verbatim>\<open>sep.join\<close>, \<^verbatim>\<open>str.split\<close> on one character, \<^verbatim>\<open>str.lower\<close>, \<^verbatim>\<open>str.upper\<close>,
  \<^verbatim>\<open>str.strip\<close>, and the word characters of the regular expressions.\<close>

fun join :: "string \<Rightarrow> string list \<Rightarrow> string" where
  "join sep [] = []"
| "join sep [x] = x"
| "join sep (x # xs) = x @ sep @ join sep xs"

fun split :: "'a \<Rightarrow> 'a list \<Rightarrow> 'a list list" where
  "split c [] = [[]]"
| "split c (x # xs) =
     (if x = c then [] # split c xs
      else (case split c xs of t # ts \<Rightarrow> (x # t) # ts | [] \<Rightarrow> [[x]]))"

definition lower :: "string \<Rightarrow> string" where
  "lower t =
     map (\<lambda>c. if (65::nat) \<le> of_char c \<and> of_char c \<le> (90::nat)
              then char_of (of_char c + (32::nat)) else c) t"

definition upper :: "string \<Rightarrow> string" where
  "upper t =
     map (\<lambda>c. case map_of (zip ''abcdefghijklmnopqrstuvwxyz'' ''ABCDEFGHIJKLMNOPQRSTUVWXYZ'') c of
                Some u \<Rightarrow> u
              | None \<Rightarrow> c) t"

definition word_char :: "char \<Rightarrow> bool" where
  "word_char c =
     (let n = (of_char c :: nat)
      in (48 \<le> n \<and> n \<le> 57) \<or> (65 \<le> n \<and> n \<le> 90) \<or> (97 \<le> n \<and> n \<le> 122) \<or> n = 95)"

definition letter :: "char \<Rightarrow> bool" where
  "letter c = (c \<in> set ''abcdefghijklmnopqrstuvwxyzABCDEFGHIJKLMNOPQRSTUVWXYZ'')"

definition whitespace :: "char \<Rightarrow> bool" where
  "whitespace c =
     (c \<in> set [CHR '' '', CHR 0x09, CHR 0x0A, CHR 0x0B, CHR 0x0C, CHR 0x0D, CHR 0x1C, CHR 0x1D,
                CHR 0x1E, CHR 0x1F])"

definition strip :: "string \<Rightarrow> string" where
  "strip t = rev (dropWhile whitespace (rev (dropWhile whitespace t)))"

text \<open>\<^verbatim>\<open>re.split('(SET|REMOVE|ADD)', expression)\<close>: the text is cut at every occurrence of
  one of the three keywords, found from left to right, and the result lists the pieces
  between the occurrences (empty ones too) and the keywords found, in their order.\<close>

definition keyword_at :: "string \<Rightarrow> string option" where
  "keyword_at t =
     (if prefix SET t then Some SET
      else if prefix REMOVE t then Some REMOVE
      else if prefix ADD t then Some ADD
      else None)"

fun re_split :: "string \<Rightarrow> string \<Rightarrow> string list" where
  "re_split piece [] = [piece]"
| "re_split piece (c # cs) =
     (case keyword_at (c # cs) of
        Some k \<Rightarrow> piece # k # re_split [] (drop (length k - 1) cs)
      | None \<Rightarrow> re_split (piece @ [c]) cs)"

section \<open>The store: conditional single-item updates\<close>

text \<open>
  DynamoDB is an external service. A condition or filter expression is modelled as a term
  over comparisons. An update expression is a text, and the store reads it: the text is
  cut into words and symbols, a word that is \<^verbatim>\<open>SET\<close>, \<^verbatim>\<open>REMOVE\<close>, \<^verbatim>\<open>ADD\<close> or \<^verbatim>\<open>DELETE\<close>
  (in any case of its letters) opens a clause, and the actions of a clause are separated
  by commas. The part of the expression language that is modelled is the one the handler
  writes: \<^verbatim>\<open>SET path = operand\<close> with a value placeholder or a path as the operand,
  \<^verbatim>\<open>REMOVE path\<close> and \<^verbatim>\<open>ADD path :value\<close>, on top-level attributes. A path is a
  placeholder \<^verbatim>\<open>#n\<close>, looked up in \<^verbatim>\<open>ExpressionAttributeNames\<close>, or an attribute name
  written out, which has to start with a letter, to consist of letters, digits and
  underscores, and not to be a reserved word of the store; a value \<^verbatim>\<open>:v\<close> is looked up in
  \<^verbatim>\<open>ExpressionAttributeValues\<close>. The reserved words are a parameter of the store. A text
  with anything else in it (arithmetic, functions, document paths, a \<^verbatim>\<open>DELETE\<close> clause) is
  outside this part and is not accepted here.
\<close>

text \<open>A term of a condition object of the SDK (\<^verbatim>\<open>Attr(name)\<close>) names its attribute and
  holds its value directly; a term of an expression text goes through the placeholders.\<close>

datatype path = Attr string | Text string

datatype operand = Ref string | Lit val

datatype cexp =
    attribute_not_exists path
  | Equals path operand
  | NotEquals path operand
  | AndE cexp cexp
  | OrE cexp cexp
  | Malformed

text \<open>\<^verbatim>\<open>ConditionExpression\<close> is either a text or a condition object; Python's
  \<^verbatim>\<open>str.join\<close> accepts only the former.\<close>

datatype condition = CondStr cexp | CondObj cexp

fun cexp_of :: "condition \<Rightarrow> cexp" where
  "cexp_of (CondStr c) = c"
| "cexp_of (CondObj c) = c"

text \<open>\<^verbatim>\<open>" AND ".join(cs)\<close> on expression texts: the empty join is the empty text, which
  is not an expression.\<close>

fun join_AND :: "cexp list \<Rightarrow> cexp" where
  "join_AND [] = Malformed"
| "join_AND [c] = c"
| "join_AND (c # cs) = AndE c (join_AND cs)"

record update_args =
  Key :: string
  UpdateExpression :: string
  ConditionExpression :: "condition option"
  ExpressionAttributeNames :: "(string \<times> string) list"
  ExpressionAttributeValues :: "(string \<times> val) list"

datatype ddb_error = ConditionalCheckFailedException | ValidationException

fun resolve_name :: "(string \<times> string) list \<Rightarrow> string \<Rightarrow> string option" where
  "resolve_name ean [] = None"
| "resolve_name ean (c # cs) = (if c = CHR ''#'' then map_of ean (c # cs) else Some (c # cs))"

fun resolve_path :: "(string \<times> string) list \<Rightarrow> path \<Rightarrow> string option" where
  "resolve_path ean (Attr a) = Some a"
| "resolve_path ean (Text t) = resolve_name ean t"

fun resolve_operand :: "(string \<times> val) list \<Rightarrow> operand \<Rightarrow> val option" where
  "resolve_operand eav (Ref r) = map_of eav r"
| "resolve_operand eav (Lit v) = Some v"

fun valid_cexp :: "(string \<times> string) list \<Rightarrow> (string \<times> val) list \<Rightarrow> cexp \<Rightarrow> bool" where
  "valid_cexp ean eav (attribute_not_exists p) = (resolve_path ean p \<noteq> None)"
| "valid_cexp ean eav (Equals p v) = (resolve_path ean p \<noteq> None \<and> resolve_operand eav v \<noteq> None)"
| "valid_cexp ean eav (NotEquals p v) = (resolve_path ean p \<noteq> None \<and> resolve_operand eav v \<noteq> None)"
| "valid_cexp ean eav (AndE a b) = (valid_cexp ean eav a \<and> valid_cexp ean eav b)"
| "valid_cexp ean eav (OrE a b) = (valid_cexp ean eav a \<and> valid_cexp ean eav b)"
| "valid_cexp ean eav Malformed = False"

text \<open>The truth of a valid condition on an item. A comparison with an attribute the
  item lacks is false for \<^verbatim>\<open>=\<close> and true for \<^verbatim>\<open><>\<close>; values of different types are
  different.\<close>

fun attr_of :: "(string \<times> string) list \<Rightarrow> item \<Rightarrow> path \<Rightarrow> val option" where
  "attr_of ean it p = (case resolve_path ean p of None \<Rightarrow> None | Some a \<Rightarrow> map_of it a)"

fun holds :: "(string \<times> string) list \<Rightarrow> (string \<times> val) list \<Rightarrow> item \<Rightarrow> cexp \<Rightarrow> bool" where
  "holds ean eav it (attribute_not_exists p) = (attr_of ean it p = None)"
| "holds ean eav it (Equals p v) =
     (case attr_of ean it p of None \<Rightarrow> False | Some x \<Rightarrow> resolve_operand eav v = Some x)"
| "holds ean eav it (NotEquals p v) =
     (case attr_of ean it p of None \<Rightarrow> True | Some x \<Rightarrow> resolve_operand eav v \<noteq> Some x)"
| "holds ean eav it (AndE a b) = (holds ean eav it a \<and> holds ean eav it b)"
| "holds ean eav it (OrE a b) = (holds ean eav it a \<or> holds ean eav it b)"
| "holds ean eav it Malformed = False"

text \<open>The words and symbols of an update expression.\<close>

datatype token = Word string | Sym char

fun tokenize :: "string \<Rightarrow> string \<Rightarrow> token list" where
  "tokenize w [] = (if w = [] then [] else [Word w])"
| "tokenize w (c # cs) =
     (if word_char c \<or> c = CHR ''#'' \<or> c = CHR '':'' then tokenize (w @ [c]) cs
      else (if w = [] then [] else [Word w]) @ (if whitespace c then [] else [Sym c]) @
           tokenize [] cs)"

definition clause_keyword :: "token \<Rightarrow> string option" where
  "clause_keyword t =
     (case t of
        Word w \<Rightarrow>
          if upper w \<in> set [''SET'', ''REMOVE'', ''ADD'', ''DELETE''] then Some (upper w) else None
      | Sym c \<Rightarrow> None)"

text \<open>The clauses of an expression, the last one first: a keyword opens a clause, any
  other token belongs to the clause that is open, and there has to be one.\<close>

fun clause_step ::
  "token \<Rightarrow> (string \<times> token list) list option \<Rightarrow> (string \<times> token list) list option" where
  "clause_step t None = None"
| "clause_step t (Some cls) =
     (case clause_keyword t of
        Some k \<Rightarrow> Some ((k, []) # cls)
      | None \<Rightarrow> (case cls of [] \<Rightarrow> None | (k, ts) # rest \<Rightarrow> Some ((k, ts @ [t]) # rest)))"

definition clauses :: "string \<Rightarrow> (string \<times> token list) list option" where
  "clauses text = fold clause_step (tokenize [] text) (Some [])"

definition actions :: "(string \<times> token list) list \<Rightarrow> string \<Rightarrow> token list list" where
  "actions cls k = (case map_of cls k of None \<Rightarrow> [] | Some ts \<Rightarrow> split (Sym CHR '','') ts)"

fun set_action :: "token list \<Rightarrow> (string \<times> string) option" where
  "set_action [Word p, Sym e, Word v] = (if e = CHR ''='' then Some (p, v) else None)"
| "set_action ts = None"

fun remove_action :: "token list \<Rightarrow> string option" where
  "remove_action [Word p] = Some p"
| "remove_action ts = None"

fun add_action :: "token list \<Rightarrow> (string \<times> string) option" where
  "add_action [Word p, Word v] = Some (p, v)"
| "add_action ts = None"

record update_expr =
  set_actions :: "(string \<times> string) list"
  remove_actions :: "string list"
  add_actions :: "(string \<times> string) list"

text \<open>An expression has at least one clause, no clause twice, and every clause at least
  one action.\<close>

definition parse_update_expression :: "string \<Rightarrow> update_expr option" where
  "parse_update_expression text =
     (case clauses text of
        None \<Rightarrow> None
      | Some cls \<Rightarrow>
          if cls \<noteq> [] \<and> distinct (map fst cls) \<and> ''DELETE'' \<notin> set (map fst cls)
          then (case (those (map set_action (actions cls ''SET'')),
                      those (map remove_action (actions cls ''REMOVE'')),
                      those (map add_action (actions cls ''ADD''))) of
                  (Some sets, Some removes, Some adds) \<Rightarrow>
                    Some \<lparr>set_actions = sets, remove_actions = removes, add_actions = adds\<rparr>
                | _ \<Rightarrow> None)
          else None)"

text \<open>The paths and operands of the actions, resolved; \<open>None\<close> when a placeholder is not
  bound, a name is not one, or a written-out name is a reserved word. The operand of an
  assignment is a value, or the attribute whose value is to be copied.\<close>

definition placeholder :: "char \<Rightarrow> string \<Rightarrow> bool" where
  "placeholder c t = (case t of [] \<Rightarrow> False | x # xs \<Rightarrow> x = c \<and> xs \<noteq> [] \<and> list_all word_char xs)"

definition update_path ::
  "(string \<Rightarrow> bool) \<Rightarrow> (string \<times> string) list \<Rightarrow> string \<Rightarrow> string option" where
  "update_path reserved ean p =
     (if placeholder CHR ''#'' p then map_of ean p
      else if p \<noteq> [] \<and> letter (hd p) \<and> list_all word_char p \<and> \<not> reserved p then Some p
      else None)"

datatype source = Value val | Copy string

definition update_operand ::
  "(string \<Rightarrow> bool) \<Rightarrow> (string \<times> string) list \<Rightarrow> (string \<times> val) list \<Rightarrow> string
    \<Rightarrow> source option" where
  "update_operand reserved ean eav v =
     (if placeholder CHR '':'' v then map_option Value (map_of eav v)
      else map_option Copy (update_path reserved ean v))"

fun resolve_assignments ::
  "(string \<Rightarrow> bool) \<Rightarrow> (string \<times> string) list \<Rightarrow> (string \<times> val) list
    \<Rightarrow> (string \<times> string) list \<Rightarrow> (string \<times> source) list option" where
  "resolve_assignments reserved ean eav [] = Some []"
| "resolve_assignments reserved ean eav ((p, v) # xs) =
     (case (update_path reserved ean p, update_operand reserved ean eav v,
            resolve_assignments reserved ean eav xs) of
        (Some a, Some x, Some r) \<Rightarrow> Some ((a, x) # r)
      | _ \<Rightarrow> None)"

fun resolve_names ::
  "(string \<Rightarrow> bool) \<Rightarrow> (string \<times> string) list \<Rightarrow> string list \<Rightarrow> string list option" where
  "resolve_names reserved ean [] = Some []"
| "resolve_names reserved ean (p # ps) =
     (case (update_path reserved ean p, resolve_names reserved ean ps) of
        (Some a, Some r) \<Rightarrow> Some (a # r)
      | _ \<Rightarrow> None)"

fun resolve_additions ::
  "(string \<Rightarrow> bool) \<Rightarrow> (string \<times> string) list \<Rightarrow> (string \<times> val) list
    \<Rightarrow> (string \<times> string) list \<Rightarrow> (string \<times> val) list option" where
  "resolve_additions reserved ean eav [] = Some []"
| "resolve_additions reserved ean eav ((p, v) # xs) =
     (case (update_path reserved ean p, if placeholder CHR '':'' v then map_of eav v else None,
            resolve_additions reserved ean eav xs) of
        (Some a, Some x, Some r) \<Rightarrow> Some ((a, x) # r)
      | _ \<Rightarrow> None)"

text \<open>The values of the assignments, read from the item as it is before the update; a
  copy from an attribute the item lacks is an error of the request.\<close>

fun read_sources :: "item \<Rightarrow> (string \<times> source) list \<Rightarrow> (string \<times> val) list option" where
  "read_sources it [] = Some []"
| "read_sources it ((a, x) # xs) =
     (case (case x of Value v \<Rightarrow> Some v | Copy b \<Rightarrow> map_of it b, read_sources it xs) of
        (Some v, Some r) \<Rightarrow> Some ((a, v) # r)
      | _ \<Rightarrow> None)"

fun apply_set :: "(string \<times> val) list \<Rightarrow> item \<Rightarrow> item" where
  "apply_set [] it = it"
| "apply_set ((a, x) # xs) it = apply_set xs (AList.update a x it)"

fun apply_remove :: "string list \<Rightarrow> item \<Rightarrow> item" where
  "apply_remove [] it = it"
| "apply_remove (a # as) it = apply_remove as (AList.delete a it)"

text \<open>\<^verbatim>\<open>ADD\<close> on a number: an absent attribute starts from the added value, a number is
  incremented, anything else is a type error of the request.\<close>

fun apply_add :: "(string \<times> val) list \<Rightarrow> item \<Rightarrow> item option" where
  "apply_add [] it = Some it"
| "apply_add ((a, N n) # xs) it =
     (case map_of it a of
        None \<Rightarrow> apply_add xs (AList.update a (N n) it)
      | Some (N m) \<Rightarrow> apply_add xs (AList.update a (N (m + n)) it)
      | Some _ \<Rightarrow> None)"
| "apply_add ((a, _) # xs) it = None"

text \<open>
  \<^verbatim>\<open>Table.update_item\<close>. The request is validated first: the expression is read, every
  placeholder is bound, no attribute is written by two actions, the key attribute is not
  written, the condition is an expression. Then the condition is evaluated on the stored
  item (the empty item when the key is new), and only when it holds the actions are
  applied and the item stored; a new key creates the item. The result is the new item and
  the new table.
\<close>

type_synonym resolved_update = "(string \<times> source) list \<times> string list \<times> (string \<times> val) list"

definition resolve_update :: "(string \<Rightarrow> bool) \<Rightarrow> update_args \<Rightarrow> resolved_update option" where
  "resolve_update reserved args =
     (let ean = ExpressionAttributeNames args;
          eav = ExpressionAttributeValues args
      in case parse_update_expression (UpdateExpression args) of
           None \<Rightarrow> None
         | Some ue \<Rightarrow>
             (case (resolve_assignments reserved ean eav (set_actions ue),
                    resolve_names reserved ean (remove_actions ue),
                    resolve_additions reserved ean eav (add_actions ue)) of
                (Some sets, Some removes, Some adds) \<Rightarrow> Some (sets, removes, adds)
              | _ \<Rightarrow> None))"

fun written_paths :: "resolved_update \<Rightarrow> string list" where
  "written_paths (sets, removes, adds) = map fst sets @ removes @ map fst adds"

definition valid_update :: "string \<Rightarrow> update_args \<Rightarrow> resolved_update \<Rightarrow> bool" where
  "valid_update pk args u =
     (written_paths u \<noteq> [] \<and> distinct (written_paths u) \<and> pk \<notin> set (written_paths u) \<and>
      (case ConditionExpression args of
         None \<Rightarrow> True
       | Some c \<Rightarrow> valid_cexp (ExpressionAttributeNames args) (ExpressionAttributeValues args)
                    (cexp_of c)))"

definition condition_holds :: "update_args \<Rightarrow> item \<Rightarrow> bool" where
  "condition_holds args cur =
     (case ConditionExpression args of
        None \<Rightarrow> True
      | Some c \<Rightarrow> holds (ExpressionAttributeNames args) (ExpressionAttributeValues args) cur
                    (cexp_of c))"

fun apply_update :: "resolved_update \<Rightarrow> item \<Rightarrow> item option" where
  "apply_update (sets, removes, adds) base =
     (case read_sources base sets of
        None \<Rightarrow> None
      | Some values \<Rightarrow> apply_add adds (apply_remove removes (apply_set values base)))"

definition ddb_update_item ::
  "(string \<Rightarrow> bool) \<Rightarrow> string \<Rightarrow> table \<Rightarrow> update_args \<Rightarrow> ddb_error + (item \<times> table)" where
  "ddb_update_item reserved pk tbl args =
     (case resolve_update reserved args of
        None \<Rightarrow> Inl ValidationException
      | Some u \<Rightarrow>
          if \<not> valid_update pk args u then Inl ValidationException
          else if \<not> condition_holds args (case map_of tbl (Key args) of None \<Rightarrow> [] | Some it \<Rightarrow> it)
            then Inl ConditionalCheckFailedException
          else (case apply_update u (case map_of tbl (Key args) of
                                       None \<Rightarrow> [(pk, S (Key args))]
                                     | Some it \<Rightarrow> it) of
                  None \<Rightarrow> Inl ValidationException
                | Some new \<Rightarrow> Inr (new, AList.update (Key args) new tbl)))"

section \<open>The storage handler\<close>

text \<open>
  The configuration of a \<^verbatim>\<open>DataAPIStorageHandler\<close> (the fields its constructor sets) on
  top of the module constants, and the state its operations read and change: the two
  tables, the clock behind \<^verbatim>\<open>utils.get_date_now\<close>, the reserved words of the store, the way the store assigns keys to the
  segments of a parallel scan, the schema document of the control
  table (as the validator it compiles to) and the handler's schema cache.
\<close>

record handler = parameters +
  pk_name :: string
  table_name :: string
  region :: string
  AWS_REGION :: string
  deployed_account :: string
  delete_mode :: string
  allow_runtime_delete_mode_change :: bool
  table_indexes :: "string list"
  meta_indexes :: "string list"
  schema_validation_refresh_hitcount :: "int option"
  allow_non_itemmaster_writes :: bool
  strict_occv :: bool

record state =
  resource_table :: table
  metadata_table :: table
  date_now :: string
  reserved_word :: "string \<Rightarrow> bool"
  in_segment :: "int \<Rightarrow> int \<Rightarrow> string \<Rightarrow> bool"
  control_schema :: "(item \<Rightarrow> bool) option"
  schema_loaded :: bool
  schema_validator :: "(item \<Rightarrow> bool) option"
  schema_dependent_hit_count :: int

datatype table_ref = ResourceTable | MetadataTable

fun get_table :: "state \<Rightarrow> table_ref \<Rightarrow> table" where
  "get_table s ResourceTable = resource_table s"
| "get_table s MetadataTable = metadata_table s"

fun set_table :: "state \<Rightarrow> table_ref \<Rightarrow> table \<Rightarrow> state" where
  "set_table s ResourceTable t = s\<lparr>resource_table := t\<rparr>"
| "set_table s MetadataTable t = s\<lparr>metadata_table := t\<rparr>"

definition get_metaid :: "string \<Rightarrow> string" where
  "get_metaid item_id = item_id @ ''-meta''"

subsection \<open>Update expressions and the audit decoration\<close>

text \<open>
  \<^verbatim>\<open>DynamoUpdateExpressionHandler\<close> keeps one text for each clause keyword in the
  dictionary \<^verbatim>\<open>_tokens\<close>. Its constructor cuts the expression it is given at the keywords
  and stores every non-empty piece, stripped, under the keyword found before it (under
  \<^verbatim>\<open>None\<close> before the first keyword): a later piece of a keyword replaces an earlier one,
  and a piece whose upper case is a keyword counts as that keyword.
\<close>

type_synonym tokens = "(string option \<times> string) list"

fun read_tokens :: "string list \<Rightarrow> string option \<Rightarrow> tokens \<Rightarrow> tokens" where
  "read_tokens [] next_token_name toks = toks"
| "read_tokens (t # ts) next_token_name toks =
     (if upper t = SET then read_tokens ts (Some SET) toks
      else if upper t = REMOVE then read_tokens ts (Some REMOVE) toks
      else if upper t = ADD then read_tokens ts (Some ADD) toks
      else if t \<noteq> [] then read_tokens ts next_token_name
                             (AList.update next_token_name (strip t) toks)
      else read_tokens ts next_token_name toks)"

definition DynamoUpdateExpressionHandler :: "string option \<Rightarrow> tokens" where
  "DynamoUpdateExpressionHandler expression =
     (case expression of None \<Rightarrow> [] | Some e \<Rightarrow> read_tokens (re_split [] e) None [])"

text \<open>\<^verbatim>\<open>add_expression_item\<close>: a further item of a kind is appended after a comma.\<close>

definition add_expression_item :: "string \<Rightarrow> string \<Rightarrow> tokens \<Rightarrow> tokens" where
  "add_expression_item kind expression toks =
     (case map_of toks (Some kind) of
        None \<Rightarrow> AList.update (Some kind) expression toks
      | Some current \<Rightarrow> AList.update (Some kind) (current @ '', '' @ expression) toks)"

text \<open>\<^verbatim>\<open>get_expression\<close>: the clauses that are not empty, in the order \<^verbatim>\<open>SET\<close>,
  \<^verbatim>\<open>REMOVE\<close>, \<^verbatim>\<open>ADD\<close>.\<close>

definition get_expression :: "tokens \<Rightarrow> string" where
  "get_expression toks =
     join '' ''
       (concat (map (\<lambda>x. case map_of toks (Some x) of
                            None \<Rightarrow> []
                          | Some t \<Rightarrow> if t \<noteq> [] then [x @ '' '' @ t] else [])
                    [SET, REMOVE, ADD]))"

text \<open>\<^verbatim>\<open>DynamoTableUtils.decorate_update_request\<close>: the expression of the request is read
  again by the expression handler; every mutating request sets the three last-update
  fields and, when \<open>auto_increment\<close>, adds 1 to the item version.\<close>

definition decorate_update_request ::
  "string \<Rightarrow> update_args \<Rightarrow> string \<Rightarrow> string \<Rightarrow> bool \<Rightarrow> update_args" where
  "decorate_update_request now args caller_identity update_action auto_increment =
     (let current_expression =
            add_expression_item SET ''#lud = :lud, #lub = :lub, #lua = :lua''
              (DynamoUpdateExpressionHandler (Some (UpdateExpression args)));
          ean = AList.update ''#lua'' LAST_UPDATE_ACTION
                 (AList.update ''#lub'' LAST_UPDATED_BY
                   (AList.update ''#lud'' LAST_UPDATE_DATE (ExpressionAttributeNames args)));
          eav = AList.update '':lua'' (S update_action)
                 (AList.update '':lub'' (S caller_identity)
                   (AList.update '':lud'' (S now) (ExpressionAttributeValues args)))
      in if auto_increment
         then args\<lparr>UpdateExpression :=
                     get_expression (add_expression_item ADD (CHR ''#'' # ITEM_VERSION @ '' :incr'')
                                       current_expression),
                   ExpressionAttributeNames := AList.update (CHR ''#'' # ITEM_VERSION) ITEM_VERSION ean,
                   ExpressionAttributeValues := AList.update '':incr'' (N 1) eav\<rparr>
         else args\<lparr>UpdateExpression := get_expression current_expression,
                   ExpressionAttributeNames := ean,
                   ExpressionAttributeValues := eav\<rparr>)"

subsection \<open>Fetch, delete and restore\<close>

text \<open>Python's \<^verbatim>\<open>v == 0\<close> on a stored value: the number 0, and also \<^verbatim>\<open>False\<close>.\<close>

fun py_eq_0 :: "val \<Rightarrow> bool" where
  "py_eq_0 (N n) = (n = 0)"
| "py_eq_0 (B b) = (b = False)"
| "py_eq_0 (S s) = False"

text \<open>\<^verbatim>\<open>_fetch_item\<close>: a stored item whose deleted marker is present and not 0 is
  returned only when \<open>force\<close>; the function then falls off its end and returns
  \<^verbatim>\<open>None\<close>.\<close>

definition fetch_item :: "handler \<Rightarrow> table \<Rightarrow> string \<Rightarrow> bool \<Rightarrow> item option" where
  "fetch_item h tbl item_id force =
     (case map_of tbl item_id of
        None \<Rightarrow> None
      | Some it \<Rightarrow>
          (case map_of it (DELETED h) of
             None \<Rightarrow> Some it
           | Some d \<Rightarrow> if py_eq_0 d \<or> force then Some it else None))"

text \<open>\<^verbatim>\<open>_simple_update\<close>: an expression text that mentions \<^verbatim>\<open>#del\<close> is a delete and is
  conditioned on the marker being absent; a failed condition is absorbed as \<^verbatim>\<open>False\<close>,
  any other failure of the store is re-raised as \<^verbatim>\<open>DetailedException\<close>.\<close>

definition simple_update_args ::
  "handler \<Rightarrow> string \<Rightarrow> string \<Rightarrow> string \<Rightarrow> string \<Rightarrow> string \<Rightarrow> update_args" where
  "simple_update_args h now item_id update_expression caller_identity update_action =
     (let is_del = sublist ''#del'' update_expression;
          args0 = \<lparr>Key = item_id, UpdateExpression = update_expression,
                   ConditionExpression =
                     (if is_del then Some (CondStr (attribute_not_exists (Text ''#del''))) else None),
                   ExpressionAttributeNames = (if is_del then [(''#del'', DELETED h)] else []),
                   ExpressionAttributeValues = (if is_del then [('':del'', N 1)] else [])\<rparr>;
          args1 = (if sublist '':true'' update_expression
                   then args0\<lparr>ExpressionAttributeValues :=
                          AList.update '':true'' (B True) (ExpressionAttributeValues args0)\<rparr>
                   else args0)
      in decorate_update_request now args1 caller_identity update_action True)"

definition simple_update ::
  "handler \<Rightarrow> state \<Rightarrow> table_ref \<Rightarrow> string \<Rightarrow> string \<Rightarrow> string \<Rightarrow> string
    \<Rightarrow> (error + bool) \<times> state" where
  "simple_update h s update_table item_id update_expression caller_identity update_action =
     (case ddb_update_item (reserved_word s) (pk_name h) (get_table s update_table)
             (simple_update_args h (date_now s) item_id update_expression caller_identity
                update_action) of
        Inr (new, tbl) \<Rightarrow> (Inr True, set_table s update_table tbl)
      | Inl ConditionalCheckFailedException \<Rightarrow> (Inr False, s)
      | Inl ValidationException \<Rightarrow> (Inl DetailedException, s))"

text \<open>\<^verbatim>\<open>restore\<close>: the condition and the assignment name the attribute \<^verbatim>\<open>deleted\<close>
  literally, where the rest of the handler uses \<^verbatim>\<open>params.DELETED\<close>.\<close>

definition restore_args :: "handler \<Rightarrow> string \<Rightarrow> string \<Rightarrow> string \<Rightarrow> update_args" where
  "restore_args h now item_id caller_identity =
     decorate_update_request now
       \<lparr>Key = item_id,
        UpdateExpression = ''SET #d = :disabled REMOVE #t'',
        ConditionExpression = Some (CondStr
          (AndE (Equals (Text ''#d'') (Ref '':enabled''))
                (OrE (Equals (Text ''#t'') (Ref '':false''))
                     (attribute_not_exists (Text ''#t''))))),
        ExpressionAttributeNames = [(''#t'', TOMBSTONED), (''#d'', ''deleted'')],
        ExpressionAttributeValues =
          [('':enabled'', N 1), ('':disabled'', N 0), ('':false'', B False)]\<rparr>
       caller_identity (ACTION_RESTORE h) True"

definition restore :: "handler \<Rightarrow> state \<Rightarrow> string \<Rightarrow> string \<Rightarrow> (error + unit) \<times> state" where
  "restore h s item_id caller_identity =
     (case fetch_item h (resource_table s) item_id True of
        None \<Rightarrow> (Inl ResourceNotFoundException, s)
      | Some item \<Rightarrow>
          (case ddb_update_item (reserved_word s) (pk_name h) (resource_table s)
                  (restore_args h (date_now s) item_id caller_identity) of
             Inr (new, tbl) \<Rightarrow> (Inr (), s\<lparr>resource_table := tbl\<rparr>)
           | Inl ConditionalCheckFailedException \<Rightarrow> (Inl InvalidArgumentsException, s)
           | Inl ValidationException \<Rightarrow> (Inl ClientError, s)))"

text \<open>The attribute removals join the requested names with commas, as they are given,
  into the text of a \<^verbatim>\<open>REMOVE\<close> clause.\<close>

definition delete_metadata :: "handler \<Rightarrow> state \<Rightarrow> string \<Rightarrow> (error + bool) \<times> state" where
  "delete_metadata h s item_id =
     (Inr True, s\<lparr>metadata_table := AList.delete (get_metaid item_id) (metadata_table s)\<rparr>)"

definition remove_resource_attributes ::
  "handler \<Rightarrow> state \<Rightarrow> string \<Rightarrow> string list \<Rightarrow> string \<Rightarrow> (error + bool) \<times> state" where
  "remove_resource_attributes h s item_id resource_attributes caller_identity =
     simple_update h s ResourceTable item_id (''REMOVE '' @ join '','' resource_attributes)
       caller_identity (ACTION_REMOVE_ATTRIBUTE h)"

definition remove_metadata_attributes ::
  "handler \<Rightarrow> state \<Rightarrow> string \<Rightarrow> string list \<Rightarrow> string \<Rightarrow> (error + bool) \<times> state" where
  "remove_metadata_attributes h s item_id metadata_attributes caller_identity =
     simple_update h s MetadataTable item_id (''REMOVE '' @ join '','' metadata_attributes)
       caller_identity (ACTION_REMOVE_ATTRIBUTE h)"

text \<open>The keyword arguments of a delete request: the attribute lists of a partial delete
  and the delete mode the caller asks for, each absent or present.\<close>

record delete_kwargs =
  del_Resource :: "string list option"
  del_Metadata :: "string list option"
  del_DeleteMode :: "string option"

definition remove_internal_attrs :: "handler \<Rightarrow> item \<Rightarrow> item" where
  "remove_internal_attrs h d =
     AList.delete ''type'' (AList.delete ''api'' (AList.delete LAST_UPDATE_ACTION
       (AList.delete LAST_UPDATE_DATE (AList.delete LAST_UPDATED_BY (AList.delete (APP h) d)))))"

definition set_delete_mode :: "handler \<Rightarrow> delete_kwargs \<Rightarrow> string" where
  "set_delete_mode h kwargs =
     (case del_DeleteMode kwargs of
        Some m \<Rightarrow> if allow_runtime_delete_mode_change h \<and> m \<noteq> delete_mode h then m
                  else delete_mode h
      | None \<Rightarrow> delete_mode h)"

text \<open>\<^verbatim>\<open>delete_resource\<close>: the whole-item delete. Under tombstone mode the current item
  is fetched (without \<open>force\<close>) and the names of its attributes, but for the key, the
  version, the master link, the tombstone flag and the internal attributes, are joined
  with commas into the text of the \<^verbatim>\<open>REMOVE\<close> clause.\<close>

definition delete_resource ::
  "handler \<Rightarrow> state \<Rightarrow> string \<Rightarrow> string \<Rightarrow> delete_kwargs \<Rightarrow> (error + bool) \<times> state" where
  "delete_resource h s item_id caller_identity kwargs =
     (let upd = ''SET #del = :del''
      in if set_delete_mode h kwargs = DELETE_MODE_TOMBSTONE
         then (case fetch_item h (resource_table s) item_id False of
                 Some current \<Rightarrow>
                   (let remove_tokens = map fst (remove_internal_attrs h
                          (AList.delete TOMBSTONED (AList.delete ITEM_MASTER_ID
                            (AList.delete ITEM_VERSION (AList.delete (pk_name h) current)))));
                        upd1 = upd @ '', '' @ TOMBSTONED @ '' = :true''
                    in simple_update h s ResourceTable item_id
                         (if length remove_tokens > 0
                          then upd1 @ '' REMOVE '' @ join '','' remove_tokens else upd1)
                         caller_identity (ACTION_DELETE h))
               | None \<Rightarrow> (Inl ResourceNotFoundException, s))
         else simple_update h s ResourceTable item_id upd caller_identity (ACTION_DELETE h))"

text \<open>\<^verbatim>\<open>delete\<close>: attribute removal when a non-empty attribute list is given, else the
  deletion of the metadata record (under tombstone mode, or on an empty Metadata list) and
  of the resource.\<close>

definition delete ::
  "handler \<Rightarrow> state \<Rightarrow> string \<Rightarrow> string \<Rightarrow> delete_kwargs \<Rightarrow> (error + bool) \<times> state" where
  "delete h s item_id caller_identity kwargs =
     (case (case del_Resource kwargs of
              Some resource_attributes \<Rightarrow>
                if length resource_attributes > 0 then Some resource_attributes else None
            | None \<Rightarrow> None) of
        Some resource_attributes \<Rightarrow>
          if ITEM_MASTER_ID \<in> set resource_attributes then (Inl InvalidArgumentsException, s)
          else remove_resource_attributes h s item_id resource_attributes caller_identity
      | None \<Rightarrow>
          (case (del_Metadata kwargs, del_Resource kwargs) of
             (Some metadata_attributes, None) \<Rightarrow>
               if length metadata_attributes > 0
               then remove_metadata_attributes h s item_id metadata_attributes caller_identity
               else delete_metadata h s item_id
           | _ \<Rightarrow>
               (let s1 = (if delete_mode h = DELETE_MODE_TOMBSTONE
                          then snd (delete_metadata h s item_id) else s)
                in delete_resource h s1 item_id caller_identity kwargs)))"

subsection \<open>Updates\<close>

definition sanitise_item_lastupdate_info :: "handler \<Rightarrow> item \<Rightarrow> item" where
  "sanitise_item_lastupdate_info h item =
     AList.delete ITEM_VERSION (AList.delete LAST_UPDATE_ACTION (AList.delete LAST_UPDATED_BY
       (AList.delete LAST_UPDATE_DATE (AList.delete (pk_name h) item))))"

text \<open>The closure \<^verbatim>\<open>_render_obj_as_update(item, params.SET)\<close> of \<^verbatim>\<open>_do_update\<close>: for
  each attribute \<open>k\<close> of the item a placeholder pair \<^verbatim>\<open>#k\<close>, \<^verbatim>\<open>:k\<close> and the assignment
  \<^verbatim>\<open>#k = :k\<close>. The three accumulators are the expression handler, \<^verbatim>\<open>attribute_names\<close>
  and \<^verbatim>\<open>attribute_values\<close>.\<close>

fun render_obj_as_update ::
  "item \<Rightarrow> tokens \<times> (string \<times> string) list \<times> (string \<times> val) list
    \<Rightarrow> tokens \<times> (string \<times> string) list \<times> (string \<times> val) list" where
  "render_obj_as_update [] acc = acc"
| "render_obj_as_update ((k, v) # xs) (ue, names, vals) =
     render_obj_as_update xs
       (add_expression_item SET (CHR ''#'' # k @ '' = '' @ CHR '':'' # k) ue,
        AList.update (CHR ''#'' # k) k names,
        AList.update (CHR '':'' # k) v vals)"

text \<open>\<^verbatim>\<open>" AND ".join(conditions)\<close>: a \<^verbatim>\<open>TypeError\<close> (here \<open>None\<close>) as soon as one
  element is a condition object rather than a text. The code never joins two texts.\<close>

definition str_join_AND :: "condition list \<Rightarrow> cexp option" where
  "str_join_AND conditions =
     (if list_ex (\<lambda>c. case c of CondObj _ \<Rightarrow> True | CondStr _ \<Rightarrow> False) conditions then None
      else Some (join_AND (map cexp_of conditions)))"

text \<open>
  The condition block of \<^verbatim>\<open>_do_update\<close>, from the test
  \<^verbatim>\<open>is_resource_table and (update_constraints is not None or self._strict_occv)\<close> to the
  assignment of \<^verbatim>\<open>args[ConditionExpression]\<close>. With constraints the closure is called
  with one argument where it takes two, which Python rejects with a \<^verbatim>\<open>TypeError\<close>. Under
  strict OCCV with a supplied version the value of \<^verbatim>\<open>:ItemVersion\<close> is read from the
  item, after \<^verbatim>\<open>_sanitise_item_lastupdate_info\<close> has taken the version out of it.
\<close>

definition update_conditions ::
  "handler \<Rightarrow> item \<Rightarrow> val option \<Rightarrow> item option \<Rightarrow> condition option
    \<Rightarrow> (string \<times> string) list \<Rightarrow> (string \<times> val) list
    \<Rightarrow> error + (condition option \<times> (string \<times> string) list \<times> (string \<times> val) list)" where
  "update_conditions h item item_version update_constraints ce names vals =
     (let conditions = (case ce of Some c \<Rightarrow> [c] | None \<Rightarrow> [])
      in case update_constraints of
           Some c \<Rightarrow> Inl TypeError
         | None \<Rightarrow>
             (let occv_condition = attribute_not_exists (Text (CHR ''#'' # ITEM_VERSION));
                  names1 = AList.update (CHR ''#'' # ITEM_VERSION) ITEM_VERSION names
              in case item_version of
                   None \<Rightarrow>
                     (case str_join_AND (conditions @ [CondStr occv_condition]) of
                        None \<Rightarrow> Inl TypeError
                      | Some c \<Rightarrow> Inr (Some (CondStr c), names1, vals))
                 | Some _ \<Rightarrow>
                     (case map_of item ITEM_VERSION of
                        None \<Rightarrow> Inl KeyError
                      | Some v \<Rightarrow>
                          (case str_join_AND (conditions @
                                  [CondStr (OrE occv_condition
                                     (Equals (Text (CHR ''#'' # ITEM_VERSION))
                                             (Ref (CHR '':'' # ITEM_VERSION))))]) of
                             None \<Rightarrow> Inl TypeError
                           | Some c \<Rightarrow>
                               Inr (Some (CondStr c), names1,
                                    AList.update (CHR '':'' # ITEM_VERSION) v vals)))))"

text \<open>\<^verbatim>\<open>_do_update\<close>: the update of one record of one table. First the request is
  built (\<open>do_update_args\<close>, which can raise), then it is sent. The result is the new item
  (\<^verbatim>\<open>ReturnValues = ALL_NEW\<close>); a failed condition is raised as
  \<^verbatim>\<open>ConstraintViolationException\<close>, any other failure of the store is let through.\<close>

definition do_update_args ::
  "handler \<Rightarrow> string \<Rightarrow> string \<Rightarrow> item \<Rightarrow> string \<Rightarrow> val option \<Rightarrow> bool \<Rightarrow> item option
    \<Rightarrow> error + update_args" where
  "do_update_args h now resource_id item0 caller_identity item_version is_resource_table
      update_constraints =
     (let item = sanitise_item_lastupdate_info h item0;
          start = (add_expression_item REMOVE ''#del'' (DynamoUpdateExpressionHandler None),
                   [(''#del'', DELETED h)], []);
          (update_expression, attribute_names, attribute_values) =
             render_obj_as_update item
               (case item_version of
                  Some v \<Rightarrow> render_obj_as_update [(ITEM_VERSION, v)] start
                | None \<Rightarrow> start);
          ce = (if is_resource_table \<and> \<not> allow_non_itemmaster_writes h
                then Some (CondObj (OrE (attribute_not_exists (Attr ITEM_MASTER_ID))
                                        (Equals (Attr ITEM_MASTER_ID) (Lit (S resource_id)))))
                else None)
      in case (if is_resource_table \<and> (update_constraints \<noteq> None \<or> strict_occv h)
               then update_conditions h item item_version update_constraints ce
                      attribute_names attribute_values
               else Inr (ce, attribute_names, attribute_values)) of
           Inl e \<Rightarrow> Inl e
         | Inr (ce', names, vals) \<Rightarrow>
             Inr (decorate_update_request now
                    \<lparr>Key = resource_id, UpdateExpression = get_expression update_expression,
                     ConditionExpression = ce', ExpressionAttributeNames = names,
                     ExpressionAttributeValues = vals\<rparr>
                    caller_identity (ACTION_UPDATE h) True))"

definition do_update ::
  "handler \<Rightarrow> state \<Rightarrow> table_ref \<Rightarrow> string \<Rightarrow> item \<Rightarrow> string \<Rightarrow> val option \<Rightarrow> bool
    \<Rightarrow> item option \<Rightarrow> (error + item) \<times> state" where
  "do_update h s tbl resource_id item caller_identity item_version is_resource_table
      update_constraints =
     (case do_update_args h (date_now s) resource_id item caller_identity item_version
             is_resource_table update_constraints of
        Inl e \<Rightarrow> (Inl e, s)
      | Inr args \<Rightarrow>
          (case ddb_update_item (reserved_word s) (pk_name h) (get_table s tbl) args of
             Inr (new, t) \<Rightarrow> (Inr new, set_table s tbl t)
           | Inl ConditionalCheckFailedException \<Rightarrow> (Inl ConstraintViolationException, s)
           | Inl ValidationException \<Rightarrow> (Inl ClientError, s)))"

text \<open>\<^verbatim>\<open>_refresh_schema\<close>: the schema of the control table replaces the cached one.\<close>

definition refresh_schema :: "state \<Rightarrow> state" where
  "refresh_schema s =
     s\<lparr>schema_validator := control_schema s,
       schema_loaded := (if control_schema s \<noteq> None then True else schema_loaded s)\<rparr>"

text \<open>The keyword arguments of an update request.\<close>

record update_kwargs =
  upd_Metadata :: "item option"
  upd_Resource :: "item option"
  upd_References :: "item list option"
  upd_Constraints :: "item option"
  upd_StrictSchemaValidation :: "bool option"
  upd_ItemVersion :: "val option"

text \<open>The lazy schema reload of \<^verbatim>\<open>update_item\<close>.\<close>

definition reload_schema :: "handler \<Rightarrow> state \<Rightarrow> bool \<Rightarrow> error + state" where
  "reload_schema h s strict_schema =
     (if \<not> schema_loaded s \<or> strict_schema then Inr (refresh_schema s)
      else (case schema_validation_refresh_hitcount h of
              None \<Rightarrow> Inr s
            | Some n \<Rightarrow>
                if n = 0 then Inl ZeroDivisionError
                else if schema_dependent_hit_count s mod n = 0 then Inr (refresh_schema s)
                else Inr s))"

text \<open>
  \<^verbatim>\<open>update_item\<close>: the metadata update first, then the resource update. The response
  is the list of warnings (an updated item that is not its own master). The message of
  the first check is formatted with \<^verbatim>\<open>%\<close> on a text without conversions, which raises a
  \<^verbatim>\<open>TypeError\<close> in place of the intended exception.
\<close>

definition resource_update ::
  "handler \<Rightarrow> state \<Rightarrow> string \<Rightarrow> string \<Rightarrow> update_kwargs \<Rightarrow> item
    \<Rightarrow> (error + (string \<times> val) list) \<times> state" where
  "resource_update h s caller_identity item_id kwargs item0 =
     (let item = (if map_of item0 (pk_name h) = None
                  then AList.update (pk_name h) (S item_id) item0 else item0)
      in if map_of item ITEM_MASTER_ID \<noteq> None then (Inl InvalidArgumentsException, s)
         else
           (case reload_schema h s
                   (case upd_StrictSchemaValidation kwargs of None \<Rightarrow> False | Some b \<Rightarrow> b) of
              Inl e \<Rightarrow> (Inl e, s)
            | Inr s1 \<Rightarrow>
                if (case schema_validator s1 of None \<Rightarrow> False | Some valid \<Rightarrow> \<not> valid item)
                then (Inl InvalidArgumentsException, s1)
                else
                  (let s2 = s1\<lparr>schema_dependent_hit_count := schema_dependent_hit_count s1 + 1\<rparr>
                   in case do_update h s2 ResourceTable item_id (AList.delete (pk_name h) item)
                             caller_identity (upd_ItemVersion kwargs) True (upd_Constraints kwargs) of
                        (Inl e, s3) \<Rightarrow> (Inl e, s3)
                      | (Inr attributes, s3) \<Rightarrow>
                          (case map_of attributes ITEM_MASTER_ID of
                             None \<Rightarrow> (Inr [], s3)
                           | Some item_master_id \<Rightarrow>
                               if item_master_id \<noteq> S item_id
                               then (Inr [(item_id, item_master_id)], s3)
                               else (Inr [], s3)))))"

definition update_item ::
  "handler \<Rightarrow> state \<Rightarrow> string \<Rightarrow> string \<Rightarrow> update_kwargs
    \<Rightarrow> (error + (string \<times> val) list) \<times> state" where
  "update_item h s caller_identity item_id kwargs =
     (if upd_Metadata kwargs = None \<and> upd_Resource kwargs = None \<and> upd_References kwargs = None
      then (Inl TypeError, s)
      else
        (case (case upd_Metadata kwargs of
                 Some metadata \<Rightarrow>
                   do_update h s MetadataTable (get_metaid item_id) metadata caller_identity
                     None False None
               | None \<Rightarrow> (Inr [], s)) of
           (Inl e, s1) \<Rightarrow> (Inl e, s1)
         | (Inr _, s1) \<Rightarrow>
             (case upd_Resource kwargs of
                Some item \<Rightarrow> resource_update h s1 caller_identity item_id kwargs item
              | None \<Rightarrow> (Inr [], s1))))"

subsection \<open>Reading an item\<close>

text \<open>The response document of \<^verbatim>\<open>_structure_item\<close>.\<close>

record structured_item =
  ItemArn :: string
  Resource :: "item option"
  Metadata :: "item option"

definition get_arn_base :: "handler \<Rightarrow> string" where
  "get_arn_base h = ''arn:aws:'' @ AWS_DATA_API_SHORTNAME h"

definition get_arn :: "handler \<Rightarrow> string \<Rightarrow> string" where
  "get_arn h item_id =
     get_arn_base h @ '':'' @ AWS_REGION h @ '':'' @ deployed_account h @ '':'' @ table_name h @
       '':'' @ item_id"

definition structure_item ::
  "handler \<Rightarrow> string \<Rightarrow> item option \<Rightarrow> item option \<Rightarrow> structured_item option" where
  "structure_item h item_id resource metadata =
     (if resource \<noteq> None \<or> metadata \<noteq> None
      then Some \<lparr>ItemArn = get_arn h item_id, Resource = resource, Metadata = metadata\<rparr>
      else None)"

definition fetch_meta :: "handler \<Rightarrow> state \<Rightarrow> string \<Rightarrow> item option" where
  "fetch_meta h s item_id =
     map_option (AList.delete (pk_name h))
       (fetch_item h (metadata_table s) (get_metaid item_id) False)"

text \<open>\<^verbatim>\<open>DataAPIStorageHandler.get\<close>: an absent or deleted item is not found.\<close>

definition get :: "handler \<Rightarrow> state \<Rightarrow> string \<Rightarrow> bool \<Rightarrow> error + structured_item option" where
  "get h s item_id suppress_meta_fetch =
     (case fetch_item h (resource_table s) item_id False of
        None \<Rightarrow> Inl ResourceNotFoundException
      | Some item \<Rightarrow>
          if suppress_meta_fetch then Inr (structure_item h item_id (Some item) None)
          else Inr (structure_item h item_id (Some item) (fetch_meta h s item_id)))"

section \<open>The facade\<close>

text \<open>
  \<^verbatim>\<open>AwsDataAPI\<close> (\<^verbatim>\<open>chalicelib/aws_data_api.py\<close>) hands its table name, key name and
  region to the storage handler it builds, so the facade is the handler together with
  what it reads from its environment: the identity and account of the caller (from STS),
  whether a graph endpoint is bound, and the URL decoding of \<^verbatim>\<open>urllib.parse.unquote\<close>.
\<close>

record aws_data_api =
  storage_handler :: handler
  simple_identity :: string
  caller_account :: string
  gremlin_endpoint :: bool
  unquote :: "string \<Rightarrow> string"

text \<open>\<^verbatim>\<open>utils.shred_arn\<close>: the fields region, account, table and id of an address of
  seven or eight tokens. For seven tokens the inner function is called without its one
  argument, a \<^verbatim>\<open>TypeError\<close>.\<close>

definition shred_arn :: "string \<Rightarrow> error + (string \<times> string \<times> string \<times> string) option" where
  "shred_arn arn =
     (if CHR '':'' \<notin> set arn then Inr None
      else (let tokens = split CHR '':'' arn
            in if length tokens = 7 then Inl TypeError
               else if length tokens = 8
                 then Inr (Some (tokens ! 3, tokens ! 4, tokens ! 5, tokens ! 6))
               else Inr None))"

definition validate_arn_id :: "aws_data_api \<Rightarrow> string \<Rightarrow> error + string" where
  "validate_arn_id api item_id =
     (let h = storage_handler api; decoded_id = unquote api item_id
      in if sublist (get_arn_base h) decoded_id
         then (case shred_arn decoded_id of
                 Inl e \<Rightarrow> Inl e
               | Inr None \<Rightarrow> Inl ResourceNotFoundException
               | Inr (Some (arn_region, arn_account, arn_table, arn_id)) \<Rightarrow>
                   if caller_account api \<noteq> arn_account then Inl ResourceNotFoundException
                   else if table_name h \<noteq> arn_table then Inl ResourceNotFoundException
                   else if arn_region \<noteq> region h then Inl ResourceNotFoundException
                   else Inr arn_id)
         else Inr decoded_id)"

record get_response =
  rsp_Item :: "structured_item option"
  rsp_Master :: "structured_item option"

text \<open>\<^verbatim>\<open>AwsDataAPI.get\<close>: the item stays out of the response when it has a master and
  the option is neither absent nor \<^verbatim>\<open>include\<close>; the master is fetched when the option
  is \<^verbatim>\<open>include\<close> or \<^verbatim>\<open>prefer\<close>.\<close>

definition AwsDataAPI_get ::
  "aws_data_api \<Rightarrow> state \<Rightarrow> string \<Rightarrow> string option \<Rightarrow> bool \<Rightarrow> error + get_response" where
  "AwsDataAPI_get api s item_id master_option suppress_meta_fetch =
     (let h = storage_handler api
      in case validate_arn_id api item_id of
           Inl e \<Rightarrow> Inl e
         | Inr fetch_id \<Rightarrow>
             (case get h s fetch_id suppress_meta_fetch of
                Inl e \<Rightarrow> Inl e
              | Inr None \<Rightarrow> Inl TypeError
              | Inr (Some item) \<Rightarrow>
                  (case Resource item of
                     None \<Rightarrow> Inl KeyError
                   | Some resource \<Rightarrow>
                       (let response0 = \<lparr>rsp_Item =
                              (if map_of resource ITEM_MASTER_ID = None \<or> master_option = None \<or>
                                  map_option lower master_option = Some (lower ITEM_MASTER_INCLUDE)
                               then Some item else None),
                              rsp_Master = None\<rparr>
                        in case (map_of resource ITEM_MASTER_ID, master_option) of
                             (Some master_id, Some opt) \<Rightarrow>
                               if lower opt \<in> set [lower ITEM_MASTER_INCLUDE, lower ITEM_MASTER_PREFER]
                               then (case master_id of
                                       S m \<Rightarrow>
                                         (case get h s m False of
                                            Inl e \<Rightarrow> Inl e
                                          | Inr master \<Rightarrow> Inr (response0\<lparr>rsp_Master := master\<rparr>))
                                     | _ \<Rightarrow> Inl ClientError)
                               else Inr response0
                           | _ \<Rightarrow> Inr response0))))"

text \<open>\<^verbatim>\<open>AwsDataAPI.restore\<close>, \<^verbatim>\<open>delete\<close> and \<^verbatim>\<open>update_item\<close> resolve the address and
  delegate to the storage handler; an update with references needs the graph endpoint.\<close>

definition AwsDataAPI_restore :: "aws_data_api \<Rightarrow> state \<Rightarrow> string \<Rightarrow> (error + unit) \<times> state" where
  "AwsDataAPI_restore api s item_id =
     (case validate_arn_id api item_id of
        Inl e \<Rightarrow> (Inl e, s)
      | Inr fetch_id \<Rightarrow> restore (storage_handler api) s fetch_id (simple_identity api))"

definition AwsDataAPI_delete ::
  "aws_data_api \<Rightarrow> state \<Rightarrow> string \<Rightarrow> delete_kwargs \<Rightarrow> (error + bool) \<times> state" where
  "AwsDataAPI_delete api s item_id kwargs =
     (case validate_arn_id api item_id of
        Inl e \<Rightarrow> (Inl e, s)
      | Inr fetch_id \<Rightarrow> delete (storage_handler api) s fetch_id (simple_identity api) kwargs)"

definition put_references :: "aws_data_api \<Rightarrow> item list \<Rightarrow> error + unit" where
  "put_references api reference_doc =
     (if gremlin_endpoint api
      then (if list_all (\<lambda>r. map_of r ''Resource'' \<noteq> None) reference_doc then Inr ()
            else Inl InvalidArgumentsException)
      else Inl UnimplementedFeatureException)"

definition AwsDataAPI_update_item ::
  "aws_data_api \<Rightarrow> state \<Rightarrow> string \<Rightarrow> update_kwargs
    \<Rightarrow> (error + (string \<times> val) list) \<times> state" where
  "AwsDataAPI_update_item api s item_id kwargs =
     (case validate_arn_id api item_id of
        Inl e \<Rightarrow> (Inl e, s)
      | Inr fetch_id \<Rightarrow>
          (case (case upd_References kwargs of
                   Some reference_doc \<Rightarrow> put_references api reference_doc
                 | None \<Rightarrow> Inr ()) of
             Inl e \<Rightarrow> (Inl e, s)
           | Inr _ \<Rightarrow> update_item (storage_handler api) s (simple_identity api) fetch_id kwargs))"

text \<open>\<^verbatim>\<open>AwsDataAPI.item_master_delete\<close>: the request names the item under the key
  attribute and asserts its master under \<^verbatim>\<open>ItemMasterID\<close>.\<close>

record item_master_kwargs =
  imk_pk :: "string option"
  imk_ItemMasterID :: "val option"

definition AwsDataAPI_item_master_delete ::
  "aws_data_api \<Rightarrow> state \<Rightarrow> item_master_kwargs \<Rightarrow> (error + bool) \<times> state" where
  "AwsDataAPI_item_master_delete api s kwargs =
     (let h = storage_handler api
      in case imk_pk kwargs of
           None \<Rightarrow> (Inl ResourceNotFoundException, s)
         | Some item_id \<Rightarrow>
             (case get h s item_id False of
                Inl e \<Rightarrow> (Inl e, s)
              | Inr None \<Rightarrow> (Inl TypeError, s)
              | Inr (Some current) \<Rightarrow>
                  (case Resource current of
                     None \<Rightarrow> (Inl TypeError, s)
                   | Some resource \<Rightarrow>
                       (case map_of resource ITEM_MASTER_ID of
                          None \<Rightarrow> (Inr True, s)
                        | Some current_master \<Rightarrow>
                            if Some current_master \<noteq> imk_ItemMasterID kwargs
                            then (Inl InvalidArgumentsException, s)
                            else remove_resource_attributes h s item_id [ITEM_MASTER_ID]
                                   (simple_identity api)))))"

section \<open>Search\<close>

subsection \<open>The store: scan and query\<close>

text \<open>
  A scan or query request. The store reads the rows in table order, from after the
  exclusive start key, at most \<^verbatim>\<open>Limit\<close> of them, and returns those that pass the filter;
  the last evaluated key is returned when rows remain. A page is taken to hold every row
  it is asked for. A query reads a global secondary index: the index has to exist, its
  rows are the items that carry the index attribute, and its start key names the index
  attribute together with the table's key.
\<close>

record read_args =
  IndexName :: "string option"
  KeyConditionExpression :: "(string \<times> val) option"
  FilterExpression :: cexp
  read_ExpressionAttributeNames :: "(string \<times> string) list"
  read_ExpressionAttributeValues :: "(string \<times> val) list"
  Limit :: "int option"
  ExclusiveStartKey :: "(string \<times> val) list option"
  Segment :: "(int \<times> int) option"
  ConsistentRead :: bool

record ddb_page =
  page_Items :: "item list"
  page_LastEvaluatedKey :: "(string \<times> val) list option"

definition rows_after :: "string \<Rightarrow> val \<Rightarrow> item list \<Rightarrow> item list" where
  "rows_after pk v rows = drop 1 (dropWhile (\<lambda>it. map_of it pk \<noteq> Some v) rows)"

definition take_page :: "read_args \<Rightarrow> item list \<Rightarrow> string list \<Rightarrow> ddb_page" where
  "take_page args rows key_attrs =
     (let ean = read_ExpressionAttributeNames args;
          eav = read_ExpressionAttributeValues args;
          evaluated = (case Limit args of None \<Rightarrow> rows | Some n \<Rightarrow> take (nat n) rows)
      in \<lparr>page_Items = filter (\<lambda>it. holds ean eav it (FilterExpression args)) evaluated,
          page_LastEvaluatedKey =
            (if length evaluated < length rows \<and> evaluated \<noteq> []
             then Some (filter (\<lambda>(k, v). k \<in> set key_attrs) (last evaluated))
             else None)\<rparr>)"

definition ddb_scan ::
  "string \<Rightarrow> (int \<Rightarrow> int \<Rightarrow> string \<Rightarrow> bool) \<Rightarrow> table \<Rightarrow> read_args \<Rightarrow> ddb_error + ddb_page" where
  "ddb_scan pk seg tbl args =
     (if \<not> valid_cexp (read_ExpressionAttributeNames args) (read_ExpressionAttributeValues args)
            (FilterExpression args)
      then Inl ValidationException
      else if (case Limit args of None \<Rightarrow> False | Some n \<Rightarrow> n < 1) then Inl ValidationException
      else if (case Segment args of None \<Rightarrow> False | Some (i, n) \<Rightarrow> n < 1 \<or> i < 0 \<or> n \<le> i)
        then Inl ValidationException
      else
        (let rows0 = (case Segment args of
                        None \<Rightarrow> tbl
                      | Some (i, n) \<Rightarrow> filter (\<lambda>(k, it). seg i n k) tbl)
         in case ExclusiveStartKey args of
              None \<Rightarrow> Inr (take_page args (map snd rows0) [pk])
            | Some [(k, v)] \<Rightarrow>
                if k = pk then Inr (take_page args (rows_after pk v (map snd rows0)) [pk])
                else Inl ValidationException
            | Some _ \<Rightarrow> Inl ValidationException))"

definition ddb_query ::
  "string \<Rightarrow> string list \<Rightarrow> table \<Rightarrow> read_args \<Rightarrow> ddb_error + ddb_page" where
  "ddb_query pk gsis tbl args =
     (case (IndexName args, KeyConditionExpression args) of
        (Some index_name, Some (index_attr, search_value)) \<Rightarrow>
          if index_name \<notin> set gsis then Inl ValidationException
          else if \<not> valid_cexp (read_ExpressionAttributeNames args)
                      (read_ExpressionAttributeValues args) (FilterExpression args)
            then Inl ValidationException
          else if (case Limit args of None \<Rightarrow> False | Some n \<Rightarrow> n < 1) then Inl ValidationException
          else
            (let rows = filter (\<lambda>it. map_of it index_attr = Some search_value) (map snd tbl)
             in case ExclusiveStartKey args of
                  None \<Rightarrow> Inr (take_page args rows [index_attr, pk])
                | Some [(k1, v1), (k2, v2)] \<Rightarrow>
                    if k1 = index_attr \<and> k2 = pk \<and> k1 \<noteq> k2
                    then Inr (take_page args (rows_after pk v2 rows) [index_attr, pk])
                    else Inl ValidationException
                | Some _ \<Rightarrow> Inl ValidationException)
      | _ \<Rightarrow> Inl ValidationException)"

subsection \<open>The handler's search paths\<close>

text \<open>The keyword arguments of a find request. The two criteria documents can be absent,
  present and null, or present; the other arguments hold a value when present.\<close>

record find_kwargs =
  find_Resource :: "item option option"
  find_Metadata :: "item option option"
  find_ExclusiveStartKey :: "val option"
  find_Limit :: "int option"
  find_Segment :: "int option"
  find_TotalSegments :: "int option"
  find_Consistent :: "bool option"

datatype last_key = KeyDict "(string \<times> val) list" | KeyVal val

record find_result =
  LastEvaluatedKey :: "last_key option"
  Items :: "item list"

definition get_indexname :: "string \<Rightarrow> string \<Rightarrow> string" where
  "get_indexname tname attr_name = tname @ ''-'' @ attr_name"

definition get_metaname :: "string \<Rightarrow> string" where
  "get_metaname name = name @ ''-Metadata''"

fun table_name_of :: "handler \<Rightarrow> table_ref \<Rightarrow> string" where
  "table_name_of h ResourceTable = table_name h"
| "table_name_of h MetadataTable = get_metaname (table_name h)"

text \<open>The indexes \<^verbatim>\<open>_setup_table\<close> configures: the item-master index on the resource
  table, and one index for each configured attribute, named by the part before an
  \<^verbatim>\<open>=\<close>.\<close>

fun table_gsis :: "handler \<Rightarrow> table_ref \<Rightarrow> string list" where
  "table_gsis h ResourceTable =
     get_indexname (table_name h) ITEM_MASTER_ID #
       map (\<lambda>a. get_indexname (table_name h) (hd (split CHR ''='' a))) (table_indexes h)"
| "table_gsis h MetadataTable =
     map (\<lambda>a. get_indexname (get_metaname (table_name h)) (hd (split CHR ''='' a))) (meta_indexes h)"

text \<open>\<^verbatim>\<open>_add_deleted_filter\<close> on a request that has no filter yet.\<close>

definition add_deleted_filter :: "handler \<Rightarrow> read_args \<Rightarrow> read_args" where
  "add_deleted_filter h args =
     args\<lparr>FilterExpression :=
            OrE (attribute_not_exists (Text ''#deleted''))
                (NotEquals (Text ''#deleted'') (Ref '':deleted'')),
          read_ExpressionAttributeNames :=
            AList.update ''#deleted'' (DELETED h) (read_ExpressionAttributeNames args),
          read_ExpressionAttributeValues :=
            AList.update '':deleted'' (N 1) (read_ExpressionAttributeValues args)\<rparr>"

text \<open>\<^verbatim>\<open>make_ddb_expressionval\<close>: the word characters of a name.\<close>

definition make_ddb_expressionval :: "string \<Rightarrow> string" where
  "make_ddb_expressionval t = filter word_char t"

text \<open>\<^verbatim>\<open>_get_filter_expression\<close>: one equality per criterion. For an empty document
  the joined text is empty, and is returned as such (not as \<^verbatim>\<open>None\<close>).\<close>

fun filter_items ::
  "item \<Rightarrow> cexp list \<times> (string \<times> string) list \<times> (string \<times> val) list
    \<Rightarrow> cexp list \<times> (string \<times> string) list \<times> (string \<times> val) list" where
  "filter_items [] acc = acc"
| "filter_items ((k, v) # xs) (filter_expressions, expression_names, expression_values) =
     (let key = CHR ''#'' # make_ddb_expressionval k;
          value = CHR '':'' # make_ddb_expressionval k
      in filter_items xs
           (filter_expressions @ [Equals (Text key) (Ref value)],
            AList.update key k expression_names,
            AList.update value v expression_values))"

definition get_filter_expression ::
  "item option \<Rightarrow> (cexp \<times> (string \<times> string) list \<times> (string \<times> val) list) option" where
  "get_filter_expression filters =
     (case filters of
        Some fs \<Rightarrow>
          (case filter_items fs ([], [], []) of
             (filter_expressions, expression_names, expression_values) \<Rightarrow>
               Some (join_AND filter_expressions, expression_names, expression_values))
      | None \<Rightarrow> None)"

text \<open>Python's \<^verbatim>\<open>dict.update\<close>.\<close>

definition dict_update :: "('k \<times> 'v) list \<Rightarrow> ('k \<times> 'v) list \<Rightarrow> ('k \<times> 'v) list" where
  "dict_update d e = fold (\<lambda>(k, v). AList.update k v) e d"

definition add_filters :: "item option \<Rightarrow> read_args \<Rightarrow> read_args" where
  "add_filters filters args =
     (case get_filter_expression filters of
        None \<Rightarrow> args
      | Some (query_filter, expression_names, expression_values) \<Rightarrow>
          args\<lparr>FilterExpression := AndE (FilterExpression args) query_filter,
               read_ExpressionAttributeNames :=
                 dict_update (read_ExpressionAttributeNames args) expression_names,
               read_ExpressionAttributeValues :=
                 dict_update (read_ExpressionAttributeValues args) expression_values\<rparr>)"

definition empty_read :: read_args where
  "empty_read =
     \<lparr>IndexName = None, KeyConditionExpression = None, FilterExpression = Malformed,
      read_ExpressionAttributeNames = [], read_ExpressionAttributeValues = [], Limit = None,
      ExclusiveStartKey = None, Segment = None, ConsistentRead = False\<rparr>"

text \<open>\<^verbatim>\<open>_perform_query\<close>: the index lookup. The limit is given to the store, the start
  key names the index attribute only, and an error of the store is not caught.\<close>

definition perform_query ::
  "handler \<Rightarrow> state \<Rightarrow> table_ref \<Rightarrow> val option \<Rightarrow> string \<Rightarrow> val \<Rightarrow> item option \<Rightarrow> find_kwargs
    \<Rightarrow> error + find_result" where
  "perform_query h s tbl last_key index_attr search_value query_filters kwargs =
     (let args0 = add_deleted_filter h
            (empty_read\<lparr>IndexName := Some (get_indexname (table_name_of h tbl) index_attr),
                        KeyConditionExpression := Some (index_attr, search_value)\<rparr>);
          args1 = add_filters query_filters (args0\<lparr>Limit := find_Limit kwargs\<rparr>);
          args = (case last_key of
                    Some k \<Rightarrow> args1\<lparr>ExclusiveStartKey := Some [(index_attr, k)]\<rparr>
                  | None \<Rightarrow> args1)
      in case ddb_query (pk_name h) (table_gsis h tbl) (get_table s tbl) args of
           Inl e \<Rightarrow> Inl ClientError
         | Inr page \<Rightarrow>
             Inr \<lparr>LastEvaluatedKey = map_option KeyDict (page_LastEvaluatedKey page),
                  Items = page_Items page\<rparr>)"

text \<open>\<^verbatim>\<open>_perform_scan\<close>: the full scan. The limit is applied to the page after the scan
  unless \<open>do_limit_in_scan\<close>; an error of the store is raised as
  \<^verbatim>\<open>InvalidArgumentsException\<close>.\<close>

definition perform_scan ::
  "handler \<Rightarrow> state \<Rightarrow> table_ref \<Rightarrow> val option \<Rightarrow> item option \<Rightarrow> bool \<Rightarrow> find_kwargs
    \<Rightarrow> error + find_result" where
  "perform_scan h s tbl last_key scan_filters do_limit_in_scan kwargs =
     (if find_Segment kwargs \<noteq> None \<and> find_TotalSegments kwargs = None
      then Inl InvalidArgumentsException
      else
        (let args0 = add_deleted_filter h empty_read;
             args1 = (case (find_Segment kwargs, find_TotalSegments kwargs) of
                        (Some i, Some n) \<Rightarrow> args0\<lparr>Segment := Some (i, n)\<rparr>
                      | _ \<Rightarrow> args0);
             args2 = (if find_Limit kwargs \<noteq> None \<and> do_limit_in_scan
                      then args1\<lparr>Limit := find_Limit kwargs\<rparr> else args1);
             args3 = add_filters scan_filters
                       (if find_Consistent kwargs \<noteq> None then args2\<lparr>ConsistentRead := True\<rparr>
                        else args2);
             args = (case last_key of
                       Some k \<Rightarrow> args3\<lparr>ExclusiveStartKey := Some [(pk_name h, k)]\<rparr>
                     | None \<Rightarrow> args3)
         in case ddb_scan (pk_name h) (in_segment s) (get_table s tbl) args of
              Inl e \<Rightarrow> Inl InvalidArgumentsException
            | Inr page \<Rightarrow>
                if (do_limit_in_scan = False \<and> find_Limit kwargs \<noteq> None) \<or>
                   length (page_Items page) > DEFAULT_MAX_RESPONSE_SIZE h
                then (let set_limit = (case find_Limit kwargs of
                                         Some n \<Rightarrow> nat n
                                       | None \<Rightarrow> DEFAULT_MAX_RESPONSE_SIZE h);
                          items = take set_limit (page_Items page)
                      in Inr \<lparr>LastEvaluatedKey =
                                (if items = [] then None
                                 else map_option KeyVal (map_of (last items) (pk_name h))),
                              Items = items\<rparr>)
                else Inr \<lparr>LastEvaluatedKey = map_option KeyDict (page_LastEvaluatedKey page),
                          Items = page_Items page\<rparr>))"

text \<open>\<^verbatim>\<open>find\<close>: the first criterion, in the order of the document, whose field is a
  configured index attribute or the master link is taken out of the document and looked
  up in its index, the rest is the filter; with no such field the table is scanned.\<close>

fun first_index :: "string list \<Rightarrow> item \<Rightarrow> (string \<times> val) option" where
  "first_index index_attrs [] = None"
| "first_index index_attrs ((k, v) # xs) =
     (if k \<in> set index_attrs \<or> k = ITEM_MASTER_ID then Some (k, v)
      else first_index index_attrs xs)"

definition find :: "handler \<Rightarrow> state \<Rightarrow> find_kwargs \<Rightarrow> error + find_result" where
  "find h s kwargs =
     (if (case find_Resource kwargs of Some (Some _) \<Rightarrow> True | _ \<Rightarrow> False) \<and>
         (case find_Metadata kwargs of Some (Some _) \<Rightarrow> True | _ \<Rightarrow> False)
      then Inl InvalidArgumentsException
      else if find_Resource kwargs = None \<and> find_Metadata kwargs = None
      then Inl InvalidArgumentsException
      else
        (case (case (find_Resource kwargs, find_Metadata kwargs) of
                 (Some (Some d), _) \<Rightarrow> Some (ResourceTable, table_indexes h, d)
               | (_, Some (Some d)) \<Rightarrow> Some (MetadataTable, meta_indexes h, d)
               | _ \<Rightarrow> None) of
           None \<Rightarrow> Inl UnimplementedFeatureException
         | Some (search_table, index_attrs, search_doc) \<Rightarrow>
             (case first_index index_attrs search_doc of
                Some (search_index_attr, search_value) \<Rightarrow>
                  perform_query h s search_table (find_ExclusiveStartKey kwargs) search_index_attr
                    search_value (Some (AList.delete search_index_attr search_doc)) kwargs
              | None \<Rightarrow>
                  perform_scan h s search_table (find_ExclusiveStartKey kwargs) (Some search_doc)
                    False kwargs)))"

section \<open>Well-named namespaces\<close>

text \<open>The store rejects a request that writes an attribute twice or writes the key. The
  requests of the handler write the reserved fields, so they are accepted only when the key
  attribute and the deleted marker of the namespace are not themselves reserved names.\<close>

definition well_named :: "handler \<Rightarrow> bool" where
  "well_named h =
     (DELETED h \<notin> set [TOMBSTONED, ITEM_VERSION, LAST_UPDATE_DATE, LAST_UPDATED_BY,
                        LAST_UPDATE_ACTION] \<and>
      pk_name h \<notin> set [DELETED h, ''deleted'', TOMBSTONED, ITEM_VERSION, LAST_UPDATE_DATE,
                        LAST_UPDATED_BY, LAST_UPDATE_ACTION])"

section \<open>Example namespace\<close>

text \<open>A namespace with soft delete and an index on \<^verbatim>\<open>color\<close>, four stored resources (the
  third linked to the first as its master, the fourth deleted) and one metadata record. The theorems below are
  about every handler and state; these values instantiate them.\<close>

definition example_handler :: handler where
  "example_handler =
     \<lparr>DELETED = ''Deleted'', APP = ''App'', ACTION_UPDATE = ''update'', ACTION_DELETE = ''delete'',
      ACTION_RESTORE = ''restore'', ACTION_REMOVE_ATTRIBUTE = ''remove'',
      DEFAULT_MAX_RESPONSE_SIZE = 100, AWS_DATA_API_SHORTNAME = ''ada'',
      pk_name = ''id'', table_name = ''T'', region = ''eu'', AWS_REGION = ''eu'',
      deployed_account = ''1'', delete_mode = ''soft'', allow_runtime_delete_mode_change = False,
      table_indexes = [''color''], meta_indexes = [], schema_validation_refresh_hitcount = None,
      allow_non_itemmaster_writes = True, strict_occv = False\<rparr>"

text \<open>The reserved words of DynamoDB, as its developer guide lists them, under their
  first letters; a name is reserved in any case of its letters.\<close>

definition reserved_words :: "(char \<times> string list) list" where
  "reserved_words =
     [(CHR ''A'', [''ABORT'', ''ABSOLUTE'', ''ACTION'', ''ADD'', ''AFTER'', ''AGENT'',
         ''AGGREGATE'', ''ALL'', ''ALLOCATE'', ''ALTER'', ''ANALYZE'', ''AND'', ''ANY'',
         ''ARCHIVE'', ''ARE'', ''ARRAY'', ''AS'', ''ASC'', ''ASCII'', ''ASENSITIVE'',
         ''ASSERTION'', ''ASYMMETRIC'', ''AT'', ''ATOMIC'', ''ATTACH'', ''ATTRIBUTE'',
         ''AUTH'', ''AUTHORIZATION'', ''AUTHORIZE'', ''AUTO'', ''AVG'']),
      (CHR ''B'', [''BACK'', ''BACKUP'', ''BASE'', ''BATCH'', ''BEFORE'', ''BEGIN'',
         ''BETWEEN'', ''BIGINT'', ''BINARY'', ''BIT'', ''BLOB'', ''BLOCK'', ''BOOLEAN'',
         ''BOTH'', ''BREADTH'', ''BUCKET'', ''BULK'', ''BY'', ''BYTE'']),
      (CHR ''C'', [''CALL'', ''CALLED'', ''CALLING'', ''CAPACITY'', ''CASCADE'', ''CASCADED'',
         ''CASE'', ''CAST'', ''CATALOG'', ''CHAR'', ''CHARACTER'', ''CHECK'', ''CLASS'',
         ''CLOB'', ''CLOSE'', ''CLUSTER'', ''CLUSTERED'', ''CLUSTERING'', ''CLUSTERS'',
         ''COALESCE'', ''COLLATE'', ''COLLATION'', ''COLLECTION'', ''COLUMN'', ''COLUMNS'',
         ''COMBINE'', ''COMMENT'', ''COMMIT'', ''COMPACT'', ''COMPILE'', ''COMPRESS'',
         ''CONDITION'', ''CONFLICT'', ''CONNECT'', ''CONNECTION'', ''CONSISTENCY'',
         ''CONSISTENT'', ''CONSTRAINT'', ''CONSTRAINTS'', ''CONSTRUCTOR'', ''CONSUMED'',
         ''CONTINUE'', ''CONVERT'', ''COPY'', ''CORRESPONDING'', ''COUNT'', ''COUNTER'',
         ''CREATE'', ''CROSS'', ''CUBE'', ''CURRENT'', ''CURSOR'', ''CYCLE'']),
      (CHR ''D'', [''DATA'', ''DATABASE'', ''DATE'', ''DATETIME'', ''DAY'', ''DEALLOCATE'',
         ''DEC'', ''DECIMAL'', ''DECLARE'', ''DEFAULT'', ''DEFERRABLE'', ''DEFERRED'',
         ''DEFINE'', ''DEFINED'', ''DEFINITION'', ''DELETE'', ''DELIMITED'', ''DEPTH'',
         ''DEREF'', ''DESC'', ''DESCRIBE'', ''DESCRIPTOR'', ''DETACH'', ''DETERMINISTIC'',
         ''DIAGNOSTICS'', ''DIRECTORIES'', ''DISABLE'', ''DISCONNECT'', ''DISTINCT'',
         ''DISTRIBUTE'', ''DO'', ''DOMAIN'', ''DOUBLE'', ''DROP'', ''DUMP'', ''DURATION'',
         ''DYNAMIC'']),
      (CHR ''E'', [''EACH'', ''ELEMENT'', ''ELSE'', ''ELSEIF'', ''EMPTY'', ''ENABLE'', ''END'',
         ''EQUAL'', ''EQUALS'', ''ERROR'', ''ESCAPE'', ''ESCAPED'', ''EVAL'', ''EVALUATE'',
         ''EXCEEDED'', ''EXCEPT'', ''EXCEPTION'', ''EXCEPTIONS'', ''EXCLUSIVE'', ''EXEC'',
         ''EXECUTE'', ''EXISTS'', ''EXIT'', ''EXPLAIN'', ''EXPLODE'', ''EXPORT'',
         ''EXPRESSION'', ''EXTENDED'', ''EXTERNAL'', ''EXTRACT'']),
      (CHR ''F'', [''FAIL'', ''FALSE'', ''FAMILY'', ''FETCH'', ''FIELDS'', ''FILE'',
         ''FILTER'', ''FILTERING'', ''FINAL'', ''FINISH'', ''FIRST'', ''FIXED'', ''FLATTERN'',
         ''FLOAT'', ''FOR'', ''FORCE'', ''FOREIGN'', ''FORMAT'', ''FORWARD'', ''FOUND'',
         ''FREE'', ''FROM'', ''FULL'', ''FUNCTION'', ''FUNCTIONS'']),
      (CHR ''G'', [''GENERAL'', ''GENERATE'', ''GET'', ''GLOB'', ''GLOBAL'', ''GO'', ''GOTO'',
         ''GRANT'', ''GREATER'', ''GROUP'', ''GROUPING'']),
      (CHR ''H'', [''HANDLER'', ''HASH'', ''HAVE'', ''HAVING'', ''HEAP'', ''HIDDEN'', ''HOLD'',
         ''HOUR'']),
      (CHR ''I'', [''IDENTIFIED'', ''IDENTITY'', ''IF'', ''IGNORE'', ''IMMEDIATE'', ''IMPORT'',
         ''IN'', ''INCLUDING'', ''INCLUSIVE'', ''INCREMENT'', ''INCREMENTAL'', ''INDEX'',
         ''INDEXED'', ''INDEXES'', ''INDICATOR'', ''INFINITE'', ''INITIALLY'', ''INLINE'',
         ''INNER'', ''INNTER'', ''INOUT'', ''INPUT'', ''INSENSITIVE'', ''INSERT'', ''INSTEAD'',
         ''INT'', ''INTEGER'', ''INTERSECT'', ''INTERVAL'', ''INTO'', ''INVALIDATE'', ''IS'',
         ''ISOLATION'', ''ITEM'', ''ITEMS'', ''ITERATE'']),
      (CHR ''J'', [''JOIN'']),
      (CHR ''K'', [''KEY'', ''KEYS'']),
      (CHR ''L'', [''LAG'', ''LANGUAGE'', ''LARGE'', ''LAST'', ''LATER'', ''LATERAL'',
         ''LEAD'', ''LEADING'', ''LEAVE'', ''LEFT'', ''LENGTH'', ''LESS'', ''LEVEL'', ''LIKE'',
         ''LIMIT'', ''LIMITED'', ''LINES'', ''LIST'', ''LOAD'', ''LOCAL'', ''LOCALTIME'',
         ''LOCALTIMESTAMP'', ''LOCATION'', ''LOCATOR'', ''LOCK'', ''LOCKS'', ''LOG'',
         ''LOGED'', ''LONG'', ''LOOP'', ''LOWER'']),
      (CHR ''M'', [''MAP'', ''MATCH'', ''MATERIALIZED'', ''MAX'', ''MAXLEN'', ''MEMBER'',
         ''MERGE'', ''METHOD'', ''METRICS'', ''MIN'', ''MINUS'', ''MINUTE'', ''MISSING'',
         ''MOD'', ''MODE'', ''MODIFIES'', ''MODIFY'', ''MODULE'', ''MONTH'', ''MULTI'',
         ''MULTISET'']),
      (CHR ''N'', [''NAME'', ''NAMES'', ''NATIONAL'', ''NATURAL'', ''NCHAR'', ''NCLOB'',
         ''NEW'', ''NEXT'', ''NO'', ''NONE'', ''NOT'', ''NULL'', ''NULLIF'', ''NUMBER'',
         ''NUMERIC'']),
      (CHR ''O'', [''OBJECT'', ''OF'', ''OFFLINE'', ''OFFSET'', ''OLD'', ''ON'', ''ONLINE'',
         ''ONLY'', ''OPAQUE'', ''OPEN'', ''OPERATOR'', ''OPTION'', ''OR'', ''ORDER'',
         ''ORDINALITY'', ''OTHER'', ''OTHERS'', ''OUT'', ''OUTER'', ''OUTPUT'', ''OVER'',
         ''OVERLAPS'', ''OVERRIDE'', ''OWNER'']),
      (CHR ''P'', [''PAD'', ''PARALLEL'', ''PARAMETER'', ''PARAMETERS'', ''PARTIAL'',
         ''PARTITION'', ''PARTITIONED'', ''PARTITIONS'', ''PATH'', ''PERCENT'', ''PERCENTILE'',
         ''PERMISSION'', ''PERMISSIONS'', ''PIPE'', ''PIPELINED'', ''PLAN'', ''POOL'',
         ''POSITION'', ''PRECISION'', ''PREPARE'', ''PRESERVE'', ''PRIMARY'', ''PRIOR'',
         ''PRIVATE'', ''PRIVILEGES'', ''PROCEDURE'', ''PROCESSED'', ''PROJECT'',
         ''PROJECTION'', ''PROPERTY'', ''PROVISIONING'', ''PUBLIC'', ''PUT'']),
      (CHR ''Q'', [''QUERY'', ''QUIT'', ''QUORUM'']),
      (CHR ''R'', [''RAISE'', ''RANDOM'', ''RANGE'', ''RANK'', ''RAW'', ''READ'', ''READS'',
         ''REAL'', ''REBUILD'', ''RECORD'', ''RECURSIVE'', ''REDUCE'', ''REF'', ''REFERENCE'',
         ''REFERENCES'', ''REFERENCING'', ''REGEXP'', ''REGION'', ''REINDEX'', ''RELATIVE'',
         ''RELEASE'', ''REMAINDER'', ''RENAME'', ''REPEAT'', ''REPLACE'', ''REQUEST'',
         ''RESET'', ''RESIGNAL'', ''RESOURCE'', ''RESPONSE'', ''RESTORE'', ''RESTRICT'',
         ''RESULT'', ''RETURN'', ''RETURNING'', ''RETURNS'', ''REVERSE'', ''REVOKE'',
         ''RIGHT'', ''ROLE'', ''ROLES'', ''ROLLBACK'', ''ROLLUP'', ''ROUTINE'', ''ROW'',
         ''ROWS'', ''RULE'', ''RULES'']),
      (CHR ''S'', [''SAMPLE'', ''SATISFIES'', ''SAVE'', ''SAVEPOINT'', ''SCAN'', ''SCHEMA'',
         ''SCOPE'', ''SCROLL'', ''SEARCH'', ''SECOND'', ''SECTION'', ''SEGMENT'', ''SEGMENTS'',
         ''SELECT'', ''SELF'', ''SEMI'', ''SENSITIVE'', ''SEPARATE'', ''SEQUENCE'',
         ''SERIALIZABLE'', ''SESSION'', ''SET'', ''SETS'', ''SHARD'', ''SHARE'', ''SHARED'',
         ''SHORT'', ''SHOW'', ''SIGNAL'', ''SIMILAR'', ''SIZE'', ''SKEWED'', ''SMALLINT'',
         ''SNAPSHOT'', ''SOME'', ''SOURCE'', ''SPACE'', ''SPACES'', ''SPARSE'', ''SPECIFIC'',
         ''SPECIFICTYPE'', ''SPLIT'', ''SQL'', ''SQLCODE'', ''SQLERROR'', ''SQLEXCEPTION'',
         ''SQLSTATE'', ''SQLWARNING'', ''START'', ''STATE'', ''STATIC'', ''STATISTICS'',
         ''STORE'', ''STORED'', ''STREAM'', ''STRING'', ''STRUCT'', ''STYLE'', ''SUB'',
         ''SUBMULTISET'', ''SUBPARTITION'', ''SUBSTRING'', ''SUBTYPE'', ''SUM'', ''SUPER'',
         ''SYMMETRIC'', ''SYNONYM'', ''SYSTEM'']),
      (CHR ''T'', [''TABLE'', ''TABLESAMPLE'', ''TEMP'', ''TEMPORARY'', ''TERMINATED'',
         ''TEXT'', ''THAN'', ''THEN'', ''THROUGHPUT'', ''TIME'', ''TIMESTAMP'', ''TIMEZONE'',
         ''TINYINT'', ''TO'', ''TOKEN'', ''TOTAL'', ''TOUCH'', ''TRAILING'', ''TRANSACTION'',
         ''TRANSFORM'', ''TRANSLATE'', ''TRANSLATION'', ''TREAT'', ''TRIGGER'', ''TRIM'',
         ''TRUE'', ''TRUNCATE'', ''TTL'', ''TUPLE'', ''TYPE'']),
      (CHR ''U'', [''UNDER'', ''UNDO'', ''UNION'', ''UNIQUE'', ''UNIT'', ''UNKNOWN'',
         ''UNLOGGED'', ''UNNEST'', ''UNPROCESSED'', ''UNSIGNED'', ''UNTIL'', ''UPDATE'',
         ''UPPER'', ''URL'', ''USAGE'', ''USE'', ''USER'', ''USERS'', ''USING'', ''UUID'']),
      (CHR ''V'', [''VACUUM'', ''VALUE'', ''VALUED'', ''VALUES'', ''VARCHAR'', ''VARIABLE'',
         ''VARIANCE'', ''VARINT'', ''VARYING'', ''VIEW'', ''VIEWS'', ''VIRTUAL'', ''VOID'']),
      (CHR ''W'', [''WAIT'', ''WHEN'', ''WHENEVER'', ''WHERE'', ''WHILE'', ''WINDOW'',
         ''WITH'', ''WITHIN'', ''WITHOUT'', ''WORK'', ''WRAPPED'', ''WRITE'']),
      (CHR ''Y'', [''YEAR'']),
      (CHR ''Z'', [''ZONE''])]"

definition is_reserved_word :: "string \<Rightarrow> bool" where
  "is_reserved_word w =
     (case upper w of
        [] \<Rightarrow> False
      | c # cs \<Rightarrow> (case map_of reserved_words c of
                     None \<Rightarrow> False
                   | Some ws \<Rightarrow> c # cs \<in> set ws))"

definition example_state :: state where
  "example_state =
     \<lparr>resource_table =
        [(''A'', [(''id'', S ''A''), (''color'', S ''red''), (''ItemVersion'', N 3)]),
         (''B'', [(''id'', S ''B''), (''color'', S ''red''), (''type'', S ''widget'')]),
         (''C'', [(''id'', S ''C''), (''size'', N 2), (''ItemMasterID'', S ''A'')]),
         (''D'', [(''id'', S ''D''), (''color'', S ''green''), (''Deleted'', N 1)])],
      metadata_table = [(''A-meta'', [(''id'', S ''A-meta''), (''note'', S ''x'')])],
      date_now = ''2020-01-01'', reserved_word = is_reserved_word,
      in_segment = (\<lambda>i n k. True), control_schema = None,
      schema_loaded = False, schema_validator = None, schema_dependent_hit_count = 0\<rparr>"

definition example_api :: aws_data_api where
  "example_api =
     \<lparr>storage_handler = example_handler, simple_identity = ''1.me'', caller_account = ''1'',
      gremlin_endpoint = False, unquote = (\<lambda>x. x)\<rparr>"

definition example_update :: update_kwargs where
  "example_update =
     \<lparr>upd_Metadata = None, upd_Resource = Some [(''color'', S ''blue'')], upd_References = None,
      upd_Constraints = None, upd_StrictSchemaValidation = None, upd_ItemVersion = None\<rparr>"

definition example_find :: find_kwargs where
  "example_find =
     \<lparr>find_Resource = Some (Some [(''color'', S ''red'')]), find_Metadata = None,
      find_ExclusiveStartKey = None, find_Limit = None, find_Segment = None,
      find_TotalSegments = None, find_Consistent = None\<rparr>"

definition whole_item :: delete_kwargs where
  "whole_item = \<lparr>del_Resource = None, del_Metadata = None, del_DeleteMode = None\<rparr>"

definition example_combined_update :: update_kwargs where
  "example_combined_update =
     \<lparr>upd_Metadata = Some [(''note'', S ''y'')],
      upd_Resource = Some [(''ItemMasterID'', S ''B'')], upd_References = None,
      upd_Constraints = None, upd_StrictSchemaValidation = None, upd_ItemVersion = None\<rparr>"

text \<open>A deleted resource, for the delete and restore examples.\<close>

definition deleted_resource :: item where
  "deleted_resource = [(''id'', S ''D''), (''color'', S ''green''), (''Deleted'', N 1)]"

definition tombstone_handler :: handler where
  "tombstone_handler = example_handler\<lparr>delete_mode := DELETE_MODE_TOMBSTONE\<rparr>"



definition master_deleted_state :: state where
  "master_deleted_state = snd (delete example_handler example_state ''A'' ''1.me'' whole_item)"

section \<open>Properties\<close>

subsection \<open>Conditions of an update\<close>

lemma sanitised_has_no_version:
  "map_of (sanitise_item_lastupdate_info h item) ITEM_VERSION = None"
  by (simp add: sanitise_item_lastupdate_info_def delete_conv)

text \<open>
  C1. Under strict OCCV an update that supplies an \<^verbatim>\<open>ItemVersion\<close> never reaches the store:
  the version for the condition is read from the item after it has been taken out of it, so
  \<^verbatim>\<open>_do_update\<close> raises \<^verbatim>\<open>KeyError\<close> and leaves the state as it was, for a stale version
  and for the current version alike. The claim asks for \<^verbatim>\<open>ConstraintViolation\<close> in the
  first case and for a successful update with the version incremented in the second.
\<close>

theorem strict_occv_supplied_version_KeyError:
  "strict_occv h \<Longrightarrow>
   do_update h s ResourceTable resource_id item caller_identity (Some v) True None
     = (Inl KeyError, s)"
  by (simp add: do_update_def do_update_args_def update_conditions_def
        sanitised_has_no_version Let_def split: prod.splits)

theorem strict_occv_supplied_version_witness:
  "do_update (example_handler\<lparr>strict_occv := True\<rparr>) example_state ResourceTable ''A''
      [(''color'', S ''blue'')] ''1.me'' (Some (N 3)) True None = (Inl KeyError, example_state)
   \<and> fst (update_item (example_handler\<lparr>strict_occv := True\<rparr>) example_state ''1.me'' ''A''
            (example_update\<lparr>upd_ItemVersion := Some (N 3)\<rparr>)) = Inl KeyError
   \<and> fst (update_item (example_handler\<lparr>strict_occv := True\<rparr>) example_state ''1.me'' ''A''
            (example_update\<lparr>upd_ItemVersion := Some (N 2)\<rparr>)) = Inl KeyError"
proof -
  have strict: "strict_occv (example_handler\<lparr>strict_occv := True\<rparr>)" by simp
  have a: "do_update (example_handler\<lparr>strict_occv := True\<rparr>) example_state ResourceTable ''A''
      [(''color'', S ''blue'')] ''1.me'' (Some (N 3)) True None = (Inl KeyError, example_state)"
    by (rule strict_occv_supplied_version_KeyError [OF strict])
  have b: "fst (update_item (example_handler\<lparr>strict_occv := True\<rparr>) example_state ''1.me'' ''A''
            (example_update\<lparr>upd_ItemVersion := Some (N 3)\<rparr>)) = Inl KeyError"
    by code_simp
  have c: "fst (update_item (example_handler\<lparr>strict_occv := True\<rparr>) example_state ''1.me'' ''A''
            (example_update\<lparr>upd_ItemVersion := Some (N 2)\<rparr>)) = Inl KeyError"
    by code_simp
  from a b c show ?thesis by blast
qed

text \<open>
  C2. The parts of the write condition are never joined. With caller constraints
  \<^verbatim>\<open>_do_update\<close> raises \<^verbatim>\<open>TypeError\<close> before any condition is built; with strict OCCV and
  the item-master condition together the join of a condition object and a text raises
  \<^verbatim>\<open>TypeError\<close> (or \<^verbatim>\<open>KeyError\<close> first, when a version is supplied). In both cases the store is
  not called and the state is unchanged.
\<close>

theorem update_conditions_never_joined:
  "do_update h s ResourceTable resource_id item caller_identity item_version True
      (Some update_constraints) = (Inl TypeError, s)
   \<and> (strict_occv h \<and> \<not> allow_non_itemmaster_writes h \<longrightarrow>
        do_update h s ResourceTable resource_id item caller_identity item_version True None
          = (Inl (if item_version = None then TypeError else KeyError), s))"
  by (cases item_version)
     (simp_all add: do_update_def do_update_args_def update_conditions_def
        sanitised_has_no_version str_join_AND_def Let_def split: prod.splits)

theorem update_conditions_never_joined_witness:
  "do_update example_handler example_state ResourceTable ''B'' [(''color'', S ''blue'')] ''1.me''
      None True (Some [(''color'', S ''red'')]) = (Inl TypeError, example_state)
   \<and> do_update (example_handler\<lparr>allow_non_itemmaster_writes := False, strict_occv := True\<rparr>)
        example_state ResourceTable ''B'' [(''color'', S ''blue'')] ''1.me'' None True None
      = (Inl TypeError, example_state)"
  using update_conditions_never_joined
    [of example_handler example_state "''B''" "[(''color'', S ''blue'')]" "''1.me''" None
        "[(''color'', S ''red'')]"]
    update_conditions_never_joined
    [of "example_handler\<lparr>allow_non_itemmaster_writes := False, strict_occv := True\<rparr>"
        example_state "''B''" "[(''color'', S ''blue'')]" "''1.me''" None "[]"]
  by simp

subsection \<open>Search by an indexed field\<close>

text \<open>
  C6. A find whose only criterion is an indexed field (or the master link) takes the index
  path with an empty remaining document. \<^verbatim>\<open>_get_filter_expression\<close> returns the empty
  text for it, not \<^verbatim>\<open>None\<close>, so the filter sent to the store ends in \<^verbatim>\<open>and\<close> followed
  by nothing; the store rejects the request and the client error is not caught. The full
  scan with the same criterion as its filter returns the matching items (the witness shows
  both), so the two paths do not return the same result set.
\<close>

theorem find_by_index_field_alone_fails:
  "k \<in> set (table_indexes h) \<or> k = ITEM_MASTER_ID \<Longrightarrow>
   find h s (kwargs\<lparr>find_Resource := Some (Some [(k, v)]), find_Metadata := None\<rparr>)
     = Inl ClientError"
  by (auto simp add: find_def perform_query_def add_filters_def get_filter_expression_def
        ddb_query_def add_deleted_filter_def empty_read_def Let_def
        split: option.splits sum.splits list.splits prod.splits)

theorem find_by_index_field_alone_witness:
  "find example_handler example_state example_find = Inl ClientError
   \<and> perform_scan example_handler example_state ResourceTable None
        (Some [(''color'', S ''red'')]) False example_find
      = Inr \<lparr>LastEvaluatedKey = None,
             Items = [[(''id'', S ''A''), (''color'', S ''red''), (''ItemVersion'', N 3)],
                      [(''id'', S ''B''), (''color'', S ''red''), (''type'', S ''widget'')]]\<rparr>"
proof -
  have ix: "''color'' \<in> set (table_indexes example_handler) \<or> ''color'' = ITEM_MASTER_ID"
    by (simp add: example_handler_def)
  have "find example_handler example_state
          (example_find\<lparr>find_Resource := Some (Some [(''color'', S ''red'')]), find_Metadata := None\<rparr>)
        = Inl ClientError"
    by (rule find_by_index_field_alone_fails [OF ix])
  then have a: "find example_handler example_state example_find = Inl ClientError"
    by (simp add: example_find_def)
  have b: "perform_scan example_handler example_state ResourceTable None
        (Some [(''color'', S ''red'')]) False example_find
      = Inr \<lparr>LastEvaluatedKey = None,
             Items = [[(''id'', S ''A''), (''color'', S ''red''), (''ItemVersion'', N 3)],
                      [(''id'', S ''B''), (''color'', S ''red''), (''type'', S ''widget'')]]\<rparr>"
    by code_simp
  from a b show ?thesis by blast
qed

subsection \<open>What an update or a delete can change\<close>

lemma ddb_update_item_table:
  "ddb_update_item rw pk tbl args = Inr (new, t) \<Longrightarrow> t = AList.update (Key args) new tbl"
  by (auto simp add: ddb_update_item_def split: option.splits if_splits)

lemma decorate_Key:
  "Key (decorate_update_request now args c a b) = Key args"
  by (simp add: decorate_update_request_def Let_def)

lemma simple_update_args_Key:
  "Key (simple_update_args h now item_id ue c a) = item_id"
  by (simp add: simple_update_args_def decorate_Key Let_def)

lemma simple_update_cases:
  assumes "simple_update h s tbl item_id ue c a = (r, s')"
  shows "(r = Inr False \<and> s' = s) \<or> (r = Inl DetailedException \<and> s' = s) \<or>
     (\<exists>new. r = Inr True \<and> s' = set_table s tbl (AList.update item_id new (get_table s tbl)))"
  using assms unfolding simple_update_def
  by (auto split: sum.splits ddb_error.splits prod.splits
           dest!: ddb_update_item_table simp: simple_update_args_Key)

lemma do_update_args_Key:
  "do_update_args h now rid item c iv irt uc = Inr args \<Longrightarrow> Key args = rid"
  unfolding do_update_args_def Let_def
  by (auto split: sum.splits prod.splits simp: decorate_Key)

lemma do_update_cases:
  assumes "do_update h s tbl rid item c iv irt uc = (r, s')"
  shows "(\<exists>e. r = Inl e \<and> s' = s) \<or>
     (\<exists>new. r = Inr new \<and> s' = set_table s tbl (AList.update rid new (get_table s tbl)))"
  using assms unfolding do_update_def
  by (auto split: sum.splits ddb_error.splits prod.splits
           dest!: ddb_update_item_table do_update_args_Key)

lemma reload_schema_tables:
  "reload_schema h s b = Inr s1 \<Longrightarrow>
     metadata_table s1 = metadata_table s \<and> resource_table s1 = resource_table s"
  by (auto simp add: reload_schema_def refresh_schema_def split: if_splits option.splits)

lemma resource_update_metadata_table:
  assumes "resource_update h s c item_id kwargs item = (r, s')"
  shows "metadata_table s' = metadata_table s"
proof -
  { fix s2 :: state and r3 s3 and it iv uc
    assume m: "metadata_table s2 = metadata_table s"
      and d: "do_update h s2 ResourceTable item_id it c iv True uc = (r3, s3)"
    from do_update_cases [OF d] m have "metadata_table s3 = metadata_table s" by auto }
  note du = this
  show ?thesis
    using assms unfolding resource_update_def Let_def
    by (auto split: sum.splits prod.splits option.splits if_splits
             dest!: reload_schema_tables dest: du [rotated])
qed

lemma resource_update_rejects_master_link:
  "map_of item ITEM_MASTER_ID \<noteq> None \<Longrightarrow>
   resource_update h s c item_id kwargs item = (Inl InvalidArgumentsException, s)"
  by (auto simp add: resource_update_def Let_def update_conv)

lemma do_update_metadata_keeps_resources:
  assumes "do_update h s MetadataTable rid item c iv irt uc = (r, s')"
  shows "resource_table s' = resource_table s"
  using do_update_cases [OF assms] by auto

text \<open>
  C9. An update that supplies both \<^verbatim>\<open>Metadata\<close> and \<^verbatim>\<open>Resource\<close> is not atomic. When the
  metadata update has succeeded (with new record \<open>new\<close>) and the resource part is then
  rejected, for whatever reason, the state that \<^verbatim>\<open>update_item\<close> leaves behind holds the new
  metadata record: the write is not rolled back. A resource payload with the master link
  is one such rejection, raised as \<^verbatim>\<open>InvalidArgumentsException\<close> in the state the metadata
  update produced.
\<close>

theorem metadata_update_not_rolled_back:
  assumes md: "upd_Metadata kwargs = Some metadata"
    and rs: "upd_Resource kwargs = Some resource"
    and du: "do_update h s MetadataTable (get_metaid item_id) metadata caller None False None
               = (Inr new, s1)"
  shows "(\<forall>e s'. update_item h s caller item_id kwargs = (Inl e, s') \<longrightarrow>
            metadata_table s' = AList.update (get_metaid item_id) new (metadata_table s) \<and>
            map_of (metadata_table s') (get_metaid item_id) = Some new)
         \<and> (map_of resource ITEM_MASTER_ID \<noteq> None \<longrightarrow>
              update_item h s caller item_id kwargs = (Inl InvalidArgumentsException, s1))"
proof -
  from do_update_cases [OF du]
  have s1: "metadata_table s1 = AList.update (get_metaid item_id) new (metadata_table s)"
    by auto
  have ui: "update_item h s caller item_id kwargs
              = resource_update h s1 caller item_id kwargs resource"
    using md rs du by (simp add: update_item_def)
  have a: "\<forall>e s'. update_item h s caller item_id kwargs = (Inl e, s') \<longrightarrow>
            metadata_table s' = AList.update (get_metaid item_id) new (metadata_table s) \<and>
            map_of (metadata_table s') (get_metaid item_id) = Some new"
  proof (intro allI impI)
    fix e s' assume "update_item h s caller item_id kwargs = (Inl e, s')"
    with ui have "resource_update h s1 caller item_id kwargs resource = (Inl e, s')" by simp
    from resource_update_metadata_table [OF this] s1
    show "metadata_table s' = AList.update (get_metaid item_id) new (metadata_table s) \<and>
            map_of (metadata_table s') (get_metaid item_id) = Some new"
      by (simp add: update_conv)
  qed
  have b: "map_of resource ITEM_MASTER_ID \<noteq> None \<longrightarrow>
              update_item h s caller item_id kwargs = (Inl InvalidArgumentsException, s1)"
    using ui by (simp add: resource_update_rejects_master_link)
  from a b show ?thesis by blast
qed

theorem metadata_update_not_rolled_back_witness:
  "fst (update_item example_handler example_state ''1.me'' ''A'' example_combined_update)
     = Inl InvalidArgumentsException
   \<and> map_of (metadata_table (snd (update_item example_handler example_state ''1.me'' ''A''
                                    example_combined_update))) ''A-meta''
     = Some [(''id'', S ''A-meta''), (''note'', S ''y''), (''LastUpdateDate'', S ''2020-01-01''),
             (''LastUpdatedBy'', S ''1.me''), (''LastUpdateAction'', S ''update''),
             (''ItemVersion'', N 1)]"
proof -
  let ?new = "[(''id'', S ''A-meta''), (''note'', S ''y''), (''LastUpdateDate'', S ''2020-01-01''),
             (''LastUpdatedBy'', S ''1.me''), (''LastUpdateAction'', S ''update''),
             (''ItemVersion'', N 1)]"
  obtain r s1 where du: "do_update example_handler example_state MetadataTable (get_metaid ''A'')
      [(''note'', S ''y'')] ''1.me'' None False None = (r, s1)"
    by (cases "do_update example_handler example_state MetadataTable (get_metaid ''A'')
      [(''note'', S ''y'')] ''1.me'' None False None") auto
  have "fst (do_update example_handler example_state MetadataTable (get_metaid ''A'')
      [(''note'', S ''y'')] ''1.me'' None False None) = Inr ?new"
    by code_simp
  with du have du': "do_update example_handler example_state MetadataTable (get_metaid ''A'')
      [(''note'', S ''y'')] ''1.me'' None False None = (Inr ?new, s1)" by simp
  have md: "upd_Metadata example_combined_update = Some [(''note'', S ''y'')]"
    and rs: "upd_Resource example_combined_update = Some [(''ItemMasterID'', S ''B'')]"
    by (simp_all add: example_combined_update_def)
  have im: "map_of [(''ItemMasterID'', S ''B'')] ITEM_MASTER_ID \<noteq> None"
    by (simp add: ITEM_MASTER_ID_def)
  from metadata_update_not_rolled_back [OF md rs du'] im
  have ui: "update_item example_handler example_state ''1.me'' ''A'' example_combined_update
          = (Inl InvalidArgumentsException, s1)"
    and keep: "metadata_table s1 = AList.update (get_metaid ''A'') ?new (metadata_table example_state) \<and>
            map_of (metadata_table s1) (get_metaid ''A'') = Some ?new"
    by blast+
  from ui keep [THEN conjunct2] show ?thesis by (simp add: get_metaid_def)
qed

text \<open>The two guards for the master link: a general update whose Resource payload carries
  \<^verbatim>\<open>ItemMasterID\<close> is rejected with an error and leaves the resource table as it was (the
  error is \<^verbatim>\<open>InvalidArgumentsException\<close> and nothing at all changes when no metadata is
  updated in the same request); an attribute-removal delete one of whose requested names is
  \<^verbatim>\<open>ItemMasterID\<close> is rejected with \<^verbatim>\<open>InvalidArgumentsException\<close> and changes
  nothing.\<close>

lemma item_master_id_guards:
  "(upd_Resource kwargs = Some item \<and> map_of item ITEM_MASTER_ID \<noteq> None \<longrightarrow>
      (\<exists>e. fst (update_item h s caller item_id kwargs) = Inl e) \<and>
      resource_table (snd (update_item h s caller item_id kwargs)) = resource_table s \<and>
      (upd_Metadata kwargs = None \<longrightarrow>
         update_item h s caller item_id kwargs = (Inl InvalidArgumentsException, s)))
   \<and> (del_Resource dkw = Some attrs \<and> ITEM_MASTER_ID \<in> set attrs \<longrightarrow>
        delete h s item_id caller dkw = (Inl InvalidArgumentsException, s))"
proof (intro conjI impI)
  assume a: "upd_Resource kwargs = Some item \<and> map_of item ITEM_MASTER_ID \<noteq> None"
  then have rs: "upd_Resource kwargs = Some item" and im: "map_of item ITEM_MASTER_ID \<noteq> None"
    by simp_all
  note rej = resource_update_rejects_master_link [OF im]
  show "\<exists>e. fst (update_item h s caller item_id kwargs) = Inl e"
    using rs by (auto simp add: update_item_def rej split: option.splits prod.splits sum.splits)
  show "resource_table (snd (update_item h s caller item_id kwargs)) = resource_table s"
    using rs
    by (auto simp add: update_item_def rej split: option.splits prod.splits sum.splits
             dest: do_update_metadata_keeps_resources)
  show "update_item h s caller item_id kwargs = (Inl InvalidArgumentsException, s)"
    if "upd_Metadata kwargs = None"
    using rs that by (simp add: update_item_def rej)
next
  assume "del_Resource dkw = Some attrs \<and> ITEM_MASTER_ID \<in> set attrs"
  then show "delete h s item_id caller dkw = (Inl InvalidArgumentsException, s)"
    by (cases attrs) (auto simp add: delete_def)
qed

text \<open>
  C7. The guard of \<^verbatim>\<open>delete\<close> looks for \<^verbatim>\<open>ItemMasterID\<close> among the requested names as
  they are given, and \<^verbatim>\<open>remove_resource_attributes\<close> then joins the names with commas
  into the text of the \<^verbatim>\<open>REMOVE\<close> clause. A requested name that holds the field next to
  a comma or a space is not equal to it, passes the guard, and the store reads the field in
  the text. For resource \<^verbatim>\<open>C\<close>, whose master is \<^verbatim>\<open>A\<close>, the attribute-removal deletes of
  \<^verbatim>\<open>color,ItemMasterID\<close> and of \<^verbatim>\<open>ItemMasterID\<close> after a space return \<^verbatim>\<open>True\<close> and the
  stored record has lost its master link; the delete of
  \<^verbatim>\<open>x SET ItemMasterID = id\<close>, which the expression handler sorts into a \<^verbatim>\<open>SET\<close> and a
  \<^verbatim>\<open>REMOVE\<close> clause, returns \<^verbatim>\<open>True\<close> and the stored master link is \<^verbatim>\<open>C\<close>. The general
  delete path writes the field that the claim reserves for the dedicated operations.
\<close>

theorem attribute_delete_reaches_master_link:
  "map_of (resource_table example_state) ''C''
     = Some [(''id'', S ''C''), (''size'', N 2), (''ItemMasterID'', S ''A'')]
   \<and> fst (delete example_handler example_state ''C'' ''1.me''
            (whole_item\<lparr>del_Resource := Some [''color,ItemMasterID'']\<rparr>)) = Inr True
   \<and> map_of (resource_table (snd (delete example_handler example_state ''C'' ''1.me''
               (whole_item\<lparr>del_Resource := Some [''color,ItemMasterID'']\<rparr>)))) ''C''
       = Some [(''id'', S ''C''), (''size'', N 2), (''LastUpdateDate'', S ''2020-01-01''),
               (''LastUpdatedBy'', S ''1.me''), (''LastUpdateAction'', S ''remove''),
               (''ItemVersion'', N 1)]
   \<and> fst (delete example_handler example_state ''C'' ''1.me''
            (whole_item\<lparr>del_Resource := Some ['' ItemMasterID'']\<rparr>)) = Inr True
   \<and> map_of (resource_table (snd (delete example_handler example_state ''C'' ''1.me''
               (whole_item\<lparr>del_Resource := Some ['' ItemMasterID'']\<rparr>)))) ''C''
       = Some [(''id'', S ''C''), (''size'', N 2), (''LastUpdateDate'', S ''2020-01-01''),
               (''LastUpdatedBy'', S ''1.me''), (''LastUpdateAction'', S ''remove''),
               (''ItemVersion'', N 1)]
   \<and> fst (delete example_handler example_state ''C'' ''1.me''
            (whole_item\<lparr>del_Resource := Some [''x SET ItemMasterID = id'']\<rparr>)) = Inr True
   \<and> map_of (resource_table (snd (delete example_handler example_state ''C'' ''1.me''
               (whole_item\<lparr>del_Resource := Some [''x SET ItemMasterID = id'']\<rparr>)))) ''C''
       = Some [(''id'', S ''C''), (''size'', N 2), (''ItemMasterID'', S ''C''),
               (''LastUpdateDate'', S ''2020-01-01''), (''LastUpdatedBy'', S ''1.me''),
               (''LastUpdateAction'', S ''remove''), (''ItemVersion'', N 1)]"
proof -
  have a: "map_of (resource_table example_state) ''C''
     = Some [(''id'', S ''C''), (''size'', N 2), (''ItemMasterID'', S ''A'')]"
    by (simp add: example_state_def)
  have b: "fst (delete example_handler example_state ''C'' ''1.me''
            (whole_item\<lparr>del_Resource := Some [''color,ItemMasterID'']\<rparr>)) = Inr True"
    by code_simp
  have c: "map_of (resource_table (snd (delete example_handler example_state ''C'' ''1.me''
               (whole_item\<lparr>del_Resource := Some [''color,ItemMasterID'']\<rparr>)))) ''C''
       = Some [(''id'', S ''C''), (''size'', N 2), (''LastUpdateDate'', S ''2020-01-01''),
               (''LastUpdatedBy'', S ''1.me''), (''LastUpdateAction'', S ''remove''),
               (''ItemVersion'', N 1)]"
    by code_simp
  have d: "fst (delete example_handler example_state ''C'' ''1.me''
            (whole_item\<lparr>del_Resource := Some ['' ItemMasterID'']\<rparr>)) = Inr True"
    by code_simp
  have e: "map_of (resource_table (snd (delete example_handler example_state ''C'' ''1.me''
               (whole_item\<lparr>del_Resource := Some ['' ItemMasterID'']\<rparr>)))) ''C''
       = Some [(''id'', S ''C''), (''size'', N 2), (''LastUpdateDate'', S ''2020-01-01''),
               (''LastUpdatedBy'', S ''1.me''), (''LastUpdateAction'', S ''remove''),
               (''ItemVersion'', N 1)]"
    by code_simp
  have f: "fst (delete example_handler example_state ''C'' ''1.me''
            (whole_item\<lparr>del_Resource := Some [''x SET ItemMasterID = id'']\<rparr>)) = Inr True"
    by code_simp
  have g: "map_of (resource_table (snd (delete example_handler example_state ''C'' ''1.me''
               (whole_item\<lparr>del_Resource := Some [''x SET ItemMasterID = id'']\<rparr>)))) ''C''
       = Some [(''id'', S ''C''), (''size'', N 2), (''ItemMasterID'', S ''C''),
               (''LastUpdateDate'', S ''2020-01-01''), (''LastUpdatedBy'', S ''1.me''),
               (''LastUpdateAction'', S ''remove''), (''ItemVersion'', N 1)]"
    by code_simp
  from a b c d e f g show ?thesis by blast
qed

subsection \<open>Removing a master link\<close>

text \<open>\<^verbatim>\<open>RemoveItemMaster\<close> on resource \<^verbatim>\<open>D\<close>, which is stored without an
  \<^verbatim>\<open>ItemMasterID\<close> and is deleted, raises \<^verbatim>\<open>ResourceNotFoundException\<close>: it does not
  return \<^verbatim>\<open>True\<close>.\<close>

theorem item_master_delete_of_deleted_item:
  "map_of (resource_table example_state) ''D''
     = Some [(''id'', S ''D''), (''color'', S ''green''), (''Deleted'', N 1)]
   \<and> fst (AwsDataAPI_item_master_delete example_api example_state
            \<lparr>imk_pk = Some ''D'', imk_ItemMasterID = Some (S ''A'')\<rparr>)
       = Inl ResourceNotFoundException"
proof -
  have a: "map_of (resource_table example_state) ''D''
     = Some [(''id'', S ''D''), (''color'', S ''green''), (''Deleted'', N 1)]"
    by (simp add: example_state_def)
  have b: "fst (AwsDataAPI_item_master_delete example_api example_state
            \<lparr>imk_pk = Some ''D'', imk_ItemMasterID = Some (S ''A'')\<rparr>)
       = Inl ResourceNotFoundException"
    by code_simp
  from a b show ?thesis by blast
qed

text \<open>
  C10 (as the code has it). \<^verbatim>\<open>RemoveItemMaster\<close> first reads the item as \<^verbatim>\<open>get\<close> does.
  For an item that is stored and not deleted and has no \<^verbatim>\<open>ItemMasterID\<close> it returns
  \<^verbatim>\<open>True\<close> and leaves the state untouched, whatever master is asserted; for an item that
  is absent or deleted it raises \<^verbatim>\<open>ResourceNotFoundException\<close> and leaves the state
  untouched; and \<^verbatim>\<open>InvalidArgumentsException\<close> is raised only for a stored, not deleted
  item whose master exists and differs from the asserted one.
\<close>

theorem item_master_delete_without_master:
  "(fetch_item (storage_handler api) (resource_table s) item_id False = Some resource \<and>
    map_of resource ITEM_MASTER_ID = None \<longrightarrow>
      AwsDataAPI_item_master_delete api s \<lparr>imk_pk = Some item_id, imk_ItemMasterID = asserted\<rparr>
        = (Inr True, s))
   \<and> (fetch_item (storage_handler api) (resource_table s) item_id False = None \<longrightarrow>
      AwsDataAPI_item_master_delete api s \<lparr>imk_pk = Some item_id, imk_ItemMasterID = asserted\<rparr>
        = (Inl ResourceNotFoundException, s))
   \<and> (AwsDataAPI_item_master_delete api s kwargs = (Inl InvalidArgumentsException, s') \<longrightarrow>
        (\<exists>item_id resource m.
           imk_pk kwargs = Some item_id \<and>
           fetch_item (storage_handler api) (resource_table s) item_id False = Some resource \<and>
           map_of resource ITEM_MASTER_ID = Some m \<and> Some m \<noteq> imk_ItemMasterID kwargs))"
proof (intro conjI impI)
  assume "fetch_item (storage_handler api) (resource_table s) item_id False = Some resource \<and>
    map_of resource ITEM_MASTER_ID = None"
  then show "AwsDataAPI_item_master_delete api s
      \<lparr>imk_pk = Some item_id, imk_ItemMasterID = asserted\<rparr> = (Inr True, s)"
    by (simp add: AwsDataAPI_item_master_delete_def get_def structure_item_def Let_def)
next
  assume "fetch_item (storage_handler api) (resource_table s) item_id False = None"
  then show "AwsDataAPI_item_master_delete api s
      \<lparr>imk_pk = Some item_id, imk_ItemMasterID = asserted\<rparr> = (Inl ResourceNotFoundException, s)"
    by (simp add: AwsDataAPI_item_master_delete_def get_def Let_def)
next
  assume a: "AwsDataAPI_item_master_delete api s kwargs = (Inl InvalidArgumentsException, s')"
  have no: "remove_resource_attributes (storage_handler api) s i [ITEM_MASTER_ID]
              (simple_identity api) \<noteq> (Inl InvalidArgumentsException, s')" for i
    unfolding remove_resource_attributes_def
    using simple_update_cases [of "storage_handler api" s ResourceTable i _ _ _
            "Inl InvalidArgumentsException" s']
    by auto
  from a no show "\<exists>item_id resource m.
           imk_pk kwargs = Some item_id \<and>
           fetch_item (storage_handler api) (resource_table s) item_id False = Some resource \<and>
           map_of resource ITEM_MASTER_ID = Some m \<and> Some m \<noteq> imk_ItemMasterID kwargs"
    by (auto simp add: AwsDataAPI_item_master_delete_def get_def structure_item_def Let_def
             split: option.splits if_splits)
qed

theorem item_master_delete_without_master_witness:
  "AwsDataAPI_item_master_delete example_api example_state
      \<lparr>imk_pk = Some ''B'', imk_ItemMasterID = Some (S ''A'')\<rparr> = (Inr True, example_state)
   \<and> AwsDataAPI_item_master_delete example_api example_state
      \<lparr>imk_pk = Some ''D'', imk_ItemMasterID = None\<rparr>
       = (Inl ResourceNotFoundException, example_state)
   \<and> AwsDataAPI_item_master_delete example_api example_state
      \<lparr>imk_pk = Some ''Z'', imk_ItemMasterID = None\<rparr>
       = (Inl ResourceNotFoundException, example_state)
   \<and> fst (AwsDataAPI_item_master_delete example_api example_state
             \<lparr>imk_pk = Some ''C'', imk_ItemMasterID = Some (S ''B'')\<rparr>)
       = Inl InvalidArgumentsException"
proof -
  have differs: "fst (AwsDataAPI_item_master_delete example_api example_state
             \<lparr>imk_pk = Some ''C'', imk_ItemMasterID = Some (S ''B'')\<rparr>)
       = Inl InvalidArgumentsException"
    by code_simp
  have b: "fetch_item (storage_handler example_api) (resource_table example_state) ''B'' False
          = Some [(''id'', S ''B''), (''color'', S ''red''), (''type'', S ''widget'')] \<and>
        map_of [(''id'', S ''B''), (''color'', S ''red''), (''type'', S ''widget'')] ITEM_MASTER_ID = None"
    by (simp add: fetch_item_def example_api_def example_state_def example_handler_def
          ITEM_MASTER_ID_def)
  have d: "fetch_item (storage_handler example_api) (resource_table example_state) ''D'' False = None"
    by (simp add: fetch_item_def example_api_def example_state_def example_handler_def)
  have z: "fetch_item (storage_handler example_api) (resource_table example_state) ''Z'' False = None"
    by (simp add: fetch_item_def example_api_def example_state_def example_handler_def)
  from item_master_delete_without_master
    [of example_api example_state "''B''" _ "Some (S ''A'')"] b
  have 1: "AwsDataAPI_item_master_delete example_api example_state
      \<lparr>imk_pk = Some ''B'', imk_ItemMasterID = Some (S ''A'')\<rparr> = (Inr True, example_state)"
    by blast
  from item_master_delete_without_master [of example_api example_state "''D''" _ None] d
  have 2: "AwsDataAPI_item_master_delete example_api example_state
      \<lparr>imk_pk = Some ''D'', imk_ItemMasterID = None\<rparr>
       = (Inl ResourceNotFoundException, example_state)"
    by blast
  from item_master_delete_without_master [of example_api example_state "''Z''" _ None] z
  have 3: "AwsDataAPI_item_master_delete example_api example_state
      \<lparr>imk_pk = Some ''Z'', imk_ItemMasterID = None\<rparr>
       = (Inl ResourceNotFoundException, example_state)"
    by blast
  from 1 2 3 differs show ?thesis by blast
qed

subsection \<open>Reading an item with a master link\<close>

text \<open>With the option \<^verbatim>\<open>prefer\<close> the response for resource \<^verbatim>\<open>C\<close>, whose master is \<^verbatim>\<open>A\<close>,
  holds the master only: the requested item is not returned.\<close>

theorem get_prefer_omits_item:
  "AwsDataAPI_get example_api example_state ''C'' (Some ''prefer'') False
     = Inr \<lparr>rsp_Item = None,
            rsp_Master = Some \<lparr>ItemArn = ''arn:aws:ada:eu:1:T:A'',
                               Resource = Some [(''id'', S ''A''), (''color'', S ''red''),
                                                (''ItemVersion'', N 3)],
                               Metadata = Some [(''note'', S ''x'')]\<rparr>\<rparr>"
  by code_simp

text \<open>
  C8 (as the code has it). For a Get of an item whose \<^verbatim>\<open>ItemMasterID\<close> is the key \<open>m\<close>:
  without a master option the response holds the item and no master, and the master is not
  read. With \<^verbatim>\<open>include\<close> or \<^verbatim>\<open>prefer\<close> (in any case of the letters) the master is read as
  \<^verbatim>\<open>get\<close> reads an item: when it is absent or deleted the Get raises
  \<^verbatim>\<open>ResourceNotFoundException\<close>; otherwise the response holds the master in the master
  slot, next to the item with \<^verbatim>\<open>include\<close>, and without the item with \<^verbatim>\<open>prefer\<close>, as the
  comment in \<^verbatim>\<open>AwsDataAPI.get\<close> says.
\<close>

theorem get_master_option:
  assumes "validate_arn_id api item_id = Inr fetch_id"
    and "get (storage_handler api) s fetch_id suppress_meta_fetch = Inr (Some item)"
    and "Resource item = Some resource"
    and "map_of resource ITEM_MASTER_ID = Some (S m)"
  shows "AwsDataAPI_get api s item_id None suppress_meta_fetch
           = Inr \<lparr>rsp_Item = Some item, rsp_Master = None\<rparr>
       \<and> (lower opt = lower ITEM_MASTER_INCLUDE \<longrightarrow>
            AwsDataAPI_get api s item_id (Some opt) suppress_meta_fetch
              = (case fetch_item (storage_handler api) (resource_table s) m False of
                   None \<Rightarrow> Inl ResourceNotFoundException
                 | Some master \<Rightarrow>
                     Inr \<lparr>rsp_Item = Some item,
                          rsp_Master = Some \<lparr>ItemArn = get_arn (storage_handler api) m,
                                             Resource = Some master,
                                             Metadata = fetch_meta (storage_handler api) s m\<rparr>\<rparr>))
       \<and> (lower opt = lower ITEM_MASTER_PREFER \<longrightarrow>
            AwsDataAPI_get api s item_id (Some opt) suppress_meta_fetch
              = (case fetch_item (storage_handler api) (resource_table s) m False of
                   None \<Rightarrow> Inl ResourceNotFoundException
                 | Some master \<Rightarrow>
                     Inr \<lparr>rsp_Item = None,
                          rsp_Master = Some \<lparr>ItemArn = get_arn (storage_handler api) m,
                                             Resource = Some master,
                                             Metadata = fetch_meta (storage_handler api) s m\<rparr>\<rparr>))"
proof -
  have ne: "lower ITEM_MASTER_PREFER \<noteq> lower ITEM_MASTER_INCLUDE"
    by (simp add: ITEM_MASTER_PREFER_def ITEM_MASTER_INCLUDE_def lower_def)
  have g: "get (storage_handler api) s m False
             = (case fetch_item (storage_handler api) (resource_table s) m False of
                  None \<Rightarrow> Inl ResourceNotFoundException
                | Some master \<Rightarrow>
                    Inr (Some \<lparr>ItemArn = get_arn (storage_handler api) m, Resource = Some master,
                               Metadata = fetch_meta (storage_handler api) s m\<rparr>))"
    by (simp add: get_def structure_item_def split: option.splits)
  show ?thesis
    using assms ne by (simp add: AwsDataAPI_get_def Let_def g split: option.splits)
qed

theorem get_master_option_witness:
  "AwsDataAPI_get example_api example_state ''C'' None False
     = Inr \<lparr>rsp_Item = Some \<lparr>ItemArn = ''arn:aws:ada:eu:1:T:C'',
                             Resource = Some [(''id'', S ''C''), (''size'', N 2),
                                              (''ItemMasterID'', S ''A'')],
                             Metadata = None\<rparr>,
            rsp_Master = None\<rparr>
   \<and> AwsDataAPI_get example_api example_state ''C'' (Some ''Include'') False
     = Inr \<lparr>rsp_Item = Some \<lparr>ItemArn = ''arn:aws:ada:eu:1:T:C'',
                             Resource = Some [(''id'', S ''C''), (''size'', N 2),
                                              (''ItemMasterID'', S ''A'')],
                             Metadata = None\<rparr>,
            rsp_Master = Some \<lparr>ItemArn = ''arn:aws:ada:eu:1:T:A'',
                               Resource = Some [(''id'', S ''A''), (''color'', S ''red''),
                                                (''ItemVersion'', N 3)],
                               Metadata = Some [(''note'', S ''x'')]\<rparr>\<rparr>
   \<and> AwsDataAPI_get example_api master_deleted_state ''C'' (Some ''include'') False
     = Inl ResourceNotFoundException
   \<and> AwsDataAPI_get example_api master_deleted_state ''C'' (Some ''prefer'') False
     = Inl ResourceNotFoundException"
proof -
  let ?c = "\<lparr>ItemArn = ''arn:aws:ada:eu:1:T:C'',
            Resource = Some [(''id'', S ''C''), (''size'', N 2), (''ItemMasterID'', S ''A'')],
            Metadata = None\<rparr>"
  have v: "validate_arn_id example_api ''C'' = Inr ''C''" by code_simp
  have g: "get (storage_handler example_api) example_state ''C'' False = Inr (Some ?c)"
    by code_simp
  have g': "get (storage_handler example_api) master_deleted_state ''C'' False = Inr (Some ?c)"
    by code_simp
  have r: "Resource ?c = Some [(''id'', S ''C''), (''size'', N 2), (''ItemMasterID'', S ''A'')]"
    by simp
  have m: "map_of [(''id'', S ''C''), (''size'', N 2), (''ItemMasterID'', S ''A'')] ITEM_MASTER_ID
             = Some (S ''A'')"
    by (simp add: ITEM_MASTER_ID_def)
  have fa: "fetch_item (storage_handler example_api) (resource_table example_state) ''A'' False
              = Some [(''id'', S ''A''), (''color'', S ''red''), (''ItemVersion'', N 3)]"
    by code_simp
  have ma: "fetch_meta (storage_handler example_api) example_state ''A'' = Some [(''note'', S ''x'')]"
    by code_simp
  have arn: "get_arn (storage_handler example_api) ''A'' = ''arn:aws:ada:eu:1:T:A''"
    by code_simp
  have fd: "fetch_item (storage_handler example_api) (resource_table master_deleted_state) ''A''
              False = None"
    by code_simp
  have l: "lower ''Include'' = lower ITEM_MASTER_INCLUDE"
    "lower ''include'' = lower ITEM_MASTER_INCLUDE" "lower ''prefer'' = lower ITEM_MASTER_PREFER"
    by code_simp+
  from get_master_option [OF v g r m, of "''Include''"] l(1) fa ma arn
  have 1: "AwsDataAPI_get example_api example_state ''C'' None False
     = Inr \<lparr>rsp_Item = Some ?c, rsp_Master = None\<rparr>"
    and 2: "AwsDataAPI_get example_api example_state ''C'' (Some ''Include'') False
     = Inr \<lparr>rsp_Item = Some ?c,
            rsp_Master = Some \<lparr>ItemArn = ''arn:aws:ada:eu:1:T:A'',
                               Resource = Some [(''id'', S ''A''), (''color'', S ''red''),
                                                (''ItemVersion'', N 3)],
                               Metadata = Some [(''note'', S ''x'')]\<rparr>\<rparr>"
    by simp_all
  from get_master_option [OF v g' r m, of "''include''"] l(2) fd
  have 3: "AwsDataAPI_get example_api master_deleted_state ''C'' (Some ''include'') False
     = Inl ResourceNotFoundException"
    by simp
  from get_master_option [OF v g' r m, of "''prefer''"] l(3) fd
  have 4: "AwsDataAPI_get example_api master_deleted_state ''C'' (Some ''prefer'') False
     = Inl ResourceNotFoundException"
    by simp
  from 1 2 3 4 show ?thesis by blast
qed

subsection \<open>The effect of the store's update on an item\<close>

lemma map_of_apply_remove:
  "map_of (apply_remove ks it) k = (if k \<in> set ks then None else map_of it k)"
  by (induction ks arbitrary: it) (auto simp add: delete_conv)

lemma map_of_apply_set_other:
  "k \<notin> fst ` set xs \<Longrightarrow> map_of (apply_set xs it) k = map_of it k"
  by (induction xs arbitrary: it) (auto simp add: update_conv)

lemma map_of_apply_set_in:
  "distinct (map fst xs) \<Longrightarrow> (k, v) \<in> set xs \<Longrightarrow> map_of (apply_set xs it) k = Some v"
proof (induction xs arbitrary: it)
  case Nil
  then show ?case by simp
next
  case (Cons x xs)
  obtain a b where x: "x = (a, b)" by (cases x)
  show ?case
  proof (cases "(k, v) \<in> set xs")
    case True
    with Cons x show ?thesis by simp
  next
    case False
    with Cons.prems x have "a = k" "b = v" "k \<notin> fst ` set xs" by auto
    with x show ?thesis by (simp add: map_of_apply_set_other update_conv)
  qed
qed

lemma apply_add_other:
  "apply_add xs it = Some it' \<Longrightarrow> k \<notin> fst ` set xs \<Longrightarrow> map_of it' k = map_of it k"
proof (induction xs arbitrary: it)
  case Nil
  then show ?case by simp
next
  case (Cons x xs)
  obtain a v where x: "x = (a, v)" by (cases x)
  show ?case
  proof (cases v)
    case (N n)
    with Cons x show ?thesis
      by (auto simp add: update_conv split: option.splits val.splits)
  next
    case (S t)
    with Cons.prems x show ?thesis by simp
  next
    case (B b)
    with Cons.prems x show ?thesis by simp
  qed
qed

lemma apply_add_number:
  "map_of it a = None \<or> (\<exists>m. map_of it a = Some (N m)) \<Longrightarrow> \<exists>it'. apply_add [(a, N n)] it = Some it'"
  by auto

subsection \<open>The requests of delete and restore\<close>

lemma soft_delete_expression:
  "get_expression (add_expression_item ADD ''#ItemVersion :incr''
      (add_expression_item SET ''#lud = :lud, #lub = :lub, #lua = :lua''
         (DynamoUpdateExpressionHandler (Some ''SET #del = :del''))))
   = ''SET #del = :del, #lud = :lud, #lub = :lub, #lua = :lua ADD #ItemVersion :incr''"
  by code_simp

lemma restore_expression:
  "get_expression (add_expression_item ADD ''#ItemVersion :incr''
      (add_expression_item SET ''#lud = :lud, #lub = :lub, #lua = :lua''
         (DynamoUpdateExpressionHandler (Some ''SET #d = :disabled REMOVE #t''))))
   = ''SET #d = :disabled, #lud = :lud, #lub = :lub, #lua = :lua REMOVE #t ADD #ItemVersion :incr''"
  by code_simp

lemma soft_delete_parsed:
  "parse_update_expression
     ''SET #del = :del, #lud = :lud, #lub = :lub, #lua = :lua ADD #ItemVersion :incr''
   = Some \<lparr>set_actions = [(''#del'', '':del''), (''#lud'', '':lud''), (''#lub'', '':lub''),
                           (''#lua'', '':lua'')],
           remove_actions = [], add_actions = [(''#ItemVersion'', '':incr'')]\<rparr>"
  by code_simp

lemma restore_parsed:
  "parse_update_expression
     ''SET #d = :disabled, #lud = :lud, #lub = :lub, #lua = :lua REMOVE #t ADD #ItemVersion :incr''
   = Some \<lparr>set_actions = [(''#d'', '':disabled''), (''#lud'', '':lud''), (''#lub'', '':lub''),
                           (''#lua'', '':lua'')],
           remove_actions = [''#t''], add_actions = [(''#ItemVersion'', '':incr'')]\<rparr>"
  by code_simp

lemma placeholders:
  "placeholder CHR ''#'' ''#del''" "placeholder CHR ''#'' ''#lud''" "placeholder CHR ''#'' ''#lub''"
  "placeholder CHR ''#'' ''#lua''" "placeholder CHR ''#'' ''#ItemVersion''"
  "placeholder CHR ''#'' ''#d''" "placeholder CHR ''#'' ''#t''"
  "placeholder CHR '':'' '':del''" "placeholder CHR '':'' '':lud''" "placeholder CHR '':'' '':lub''"
  "placeholder CHR '':'' '':lua''" "placeholder CHR '':'' '':incr''"
  "placeholder CHR '':'' '':disabled''"
  by code_simp+

lemma soft_delete_args:
  "simple_update_args h now item_id ''SET #del = :del'' c a =
     \<lparr>Key = item_id,
      UpdateExpression =
        ''SET #del = :del, #lud = :lud, #lub = :lub, #lua = :lua ADD #ItemVersion :incr'',
      ConditionExpression = Some (CondStr (attribute_not_exists (Text ''#del''))),
      ExpressionAttributeNames =
        [(''#del'', DELETED h), (''#lud'', LAST_UPDATE_DATE), (''#lub'', LAST_UPDATED_BY),
         (''#lua'', LAST_UPDATE_ACTION), (''#ItemVersion'', ITEM_VERSION)],
      ExpressionAttributeValues =
        [('':del'', N 1), ('':lud'', S now), ('':lub'', S c), ('':lua'', S a), ('':incr'', N 1)]\<rparr>"
  by (simp add: simple_update_args_def decorate_update_request_def soft_delete_expression
        sublist_code prefix_code ITEM_VERSION_def Let_def)

lemma soft_delete_resolved:
  "resolve_update rw (simple_update_args h now item_id ''SET #del = :del'' c a) =
     Some ([(DELETED h, Value (N 1)), (LAST_UPDATE_DATE, Value (S now)),
            (LAST_UPDATED_BY, Value (S c)), (LAST_UPDATE_ACTION, Value (S a))],
           [], [(ITEM_VERSION, N 1)])"
  by (simp add: soft_delete_args resolve_update_def soft_delete_parsed update_path_def
        update_operand_def placeholders)

lemma restore_args_explicit:
  "restore_args h now item_id c =
     \<lparr>Key = item_id,
      UpdateExpression =
        ''SET #d = :disabled, #lud = :lud, #lub = :lub, #lua = :lua REMOVE #t ADD #ItemVersion :incr'',
      ConditionExpression = Some (CondStr
          (AndE (Equals (Text ''#d'') (Ref '':enabled''))
                (OrE (Equals (Text ''#t'') (Ref '':false''))
                     (attribute_not_exists (Text ''#t''))))),
      ExpressionAttributeNames =
        [(''#t'', TOMBSTONED), (''#d'', ''deleted''), (''#lud'', LAST_UPDATE_DATE),
         (''#lub'', LAST_UPDATED_BY), (''#lua'', LAST_UPDATE_ACTION),
         (''#ItemVersion'', ITEM_VERSION)],
      ExpressionAttributeValues =
        [('':enabled'', N 1), ('':disabled'', N 0), ('':false'', B False), ('':lud'', S now),
         ('':lub'', S c), ('':lua'', S (ACTION_RESTORE h)), ('':incr'', N 1)]\<rparr>"
  by (simp add: restore_args_def decorate_update_request_def restore_expression
        ITEM_VERSION_def Let_def)

lemma restore_resolved:
  "resolve_update rw (restore_args h now item_id c) =
     Some ([(''deleted'', Value (N 0)), (LAST_UPDATE_DATE, Value (S now)),
            (LAST_UPDATED_BY, Value (S c)), (LAST_UPDATE_ACTION, Value (S (ACTION_RESTORE h)))],
           [TOMBSTONED], [(ITEM_VERSION, N 1)])"
  by (simp add: restore_args_explicit resolve_update_def restore_parsed update_path_def
        update_operand_def placeholders)


lemmas field_names = ITEM_VERSION_def TOMBSTONED_def LAST_UPDATE_DATE_def LAST_UPDATED_BY_def
  LAST_UPDATE_ACTION_def ITEM_MASTER_ID_def

lemma soft_delete_already_deleted:
  assumes "DELETED h \<notin> set [LAST_UPDATE_DATE, LAST_UPDATED_BY, LAST_UPDATE_ACTION, ITEM_VERSION]"
    and "pk \<notin> set [DELETED h, LAST_UPDATE_DATE, LAST_UPDATED_BY, LAST_UPDATE_ACTION, ITEM_VERSION]"
    and "map_of tbl item_id = Some cur" and "map_of cur (DELETED h) \<noteq> None"
  shows "ddb_update_item rw pk tbl (simple_update_args h now item_id ''SET #del = :del'' c a)
         = Inl ConditionalCheckFailedException"
proof -
  have k: "Key (simple_update_args h now item_id ''SET #del = :del'' c a) = item_id"
    by (rule simple_update_args_Key)
  have v: "valid_update pk (simple_update_args h now item_id ''SET #del = :del'' c a)
             ([(DELETED h, Value (N 1)), (LAST_UPDATE_DATE, Value (S now)),
               (LAST_UPDATED_BY, Value (S c)), (LAST_UPDATE_ACTION, Value (S a))],
              [], [(ITEM_VERSION, N 1)])"
    using assms(1,2) by (simp add: valid_update_def soft_delete_args field_names)
  have n: "\<not> condition_holds (simple_update_args h now item_id ''SET #del = :del'' c a) cur"
    using assms(4) by (simp add: condition_holds_def soft_delete_args)
  show ?thesis
    unfolding ddb_update_item_def soft_delete_resolved k using v n assms(3) by simp
qed

lemma soft_delete_succeeds:
  assumes d: "DELETED h \<notin> set [LAST_UPDATE_DATE, LAST_UPDATED_BY, LAST_UPDATE_ACTION, ITEM_VERSION]"
    and p: "pk \<notin> set [DELETED h, LAST_UPDATE_DATE, LAST_UPDATED_BY, LAST_UPDATE_ACTION, ITEM_VERSION]"
    and cur: "map_of tbl item_id = Some cur"
    and live: "map_of cur (DELETED h) = None"
    and ver: "map_of cur ITEM_VERSION = None \<or> (\<exists>m. map_of cur ITEM_VERSION = Some (N m))"
  shows "\<exists>new. ddb_update_item rw pk tbl (simple_update_args h now item_id ''SET #del = :del'' c a)
                  = Inr (new, AList.update item_id new tbl) \<and>
               map_of new (DELETED h) = Some (N 1) \<and>
               (\<forall>k. k \<notin> set [DELETED h, LAST_UPDATE_DATE, LAST_UPDATED_BY, LAST_UPDATE_ACTION,
                               ITEM_VERSION] \<longrightarrow> map_of new k = map_of cur k)"
proof -
  let ?args = "simple_update_args h now item_id ''SET #del = :del'' c a"
  let ?vals = "[(DELETED h, N 1), (LAST_UPDATE_DATE, S now), (LAST_UPDATED_BY, S c),
                (LAST_UPDATE_ACTION, S a)]"
  let ?u = "([(DELETED h, Value (N 1)), (LAST_UPDATE_DATE, Value (S now)),
              (LAST_UPDATED_BY, Value (S c)), (LAST_UPDATE_ACTION, Value (S a))],
             [], [(ITEM_VERSION, N 1)])"
  have k: "Key ?args = item_id" by (rule simple_update_args_Key)
  have v: "valid_update pk ?args ?u"
    using d p by (simp add: valid_update_def soft_delete_args field_names)
  have ch: "condition_holds ?args cur"
    using live by (simp add: condition_holds_def soft_delete_args)
  have iv: "ITEM_VERSION \<notin> fst ` set ?vals" using d by (auto simp add: field_names)
  have e: "map_of (apply_set ?vals cur) ITEM_VERSION = map_of cur ITEM_VERSION"
    by (rule map_of_apply_set_other [OF iv])
  from ver have "map_of (apply_set ?vals cur) ITEM_VERSION = None \<or>
      (\<exists>m. map_of (apply_set ?vals cur) ITEM_VERSION = Some (N m))"
    unfolding e .
  from apply_add_number [OF this] obtain new where
    add: "apply_add [(ITEM_VERSION, N 1)] (apply_set ?vals cur) = Some new" by blast
  then have ap: "apply_update ?u cur = Some new" by simp
  have r: "ddb_update_item rw pk tbl ?args = Inr (new, AList.update item_id new tbl)"
    unfolding ddb_update_item_def soft_delete_resolved k using v ch cur ap by simp
  from d have "map_of new (DELETED h) = map_of (apply_set ?vals cur) (DELETED h)"
    by (intro apply_add_other [OF add]) auto
  also have "\<dots> = Some (N 1)"
    by (rule map_of_apply_set_in) (use d in \<open>auto simp add: field_names\<close>)
  finally have m: "map_of new (DELETED h) = Some (N 1)" .
  have keep: "\<forall>k. k \<notin> set [DELETED h, LAST_UPDATE_DATE, LAST_UPDATED_BY, LAST_UPDATE_ACTION,
                               ITEM_VERSION] \<longrightarrow> map_of new k = map_of cur k"
  proof (intro allI impI)
    fix k
    assume that: "k \<notin> set [DELETED h, LAST_UPDATE_DATE, LAST_UPDATED_BY, LAST_UPDATE_ACTION,
                             ITEM_VERSION]"
    then have "map_of new k = map_of (apply_set ?vals cur) k"
      by (intro apply_add_other [OF add]) auto
    also from that have "\<dots> = map_of cur k"
      by (intro map_of_apply_set_other) auto
    finally show "map_of new k = map_of cur k" .
  qed
  from r m keep show ?thesis by blast
qed

lemma restore_refused:
  assumes "pk \<notin> set [''deleted'', TOMBSTONED, LAST_UPDATE_DATE, LAST_UPDATED_BY,
                      LAST_UPDATE_ACTION, ITEM_VERSION]"
    and "map_of tbl item_id = Some cur" and "map_of cur ''deleted'' \<noteq> Some (N 1)"
  shows "ddb_update_item rw pk tbl (restore_args h now item_id c)
           = Inl ConditionalCheckFailedException"
proof -
  have k: "Key (restore_args h now item_id c) = item_id"
    by (simp add: restore_args_explicit)
  have v: "valid_update pk (restore_args h now item_id c)
             ([(''deleted'', Value (N 0)), (LAST_UPDATE_DATE, Value (S now)),
               (LAST_UPDATED_BY, Value (S c)), (LAST_UPDATE_ACTION, Value (S (ACTION_RESTORE h)))],
              [TOMBSTONED], [(ITEM_VERSION, N 1)])"
    using assms(1) by (simp add: valid_update_def restore_args_explicit field_names)
  have n: "\<not> condition_holds (restore_args h now item_id c) cur"
    using assms(3) by (simp add: condition_holds_def restore_args_explicit split: option.splits)
  show ?thesis
    unfolding ddb_update_item_def restore_resolved k using v n assms(2) by simp
qed

lemma delete_whole_item:
  assumes "del_Metadata kwargs = None"
    and "del_Resource kwargs = None \<or> del_Resource kwargs = Some []"
  shows "delete h s item_id c kwargs =
           delete_resource h
             (if delete_mode h = DELETE_MODE_TOMBSTONE
              then s\<lparr>metadata_table := AList.delete (get_metaid item_id) (metadata_table s)\<rparr>
              else s) item_id c kwargs"
  using assms by (auto simp add: delete_def delete_metadata_def Let_def)


subsection \<open>Deleting a deleted item\<close>

text \<open>Under tombstone mode the first delete of resource \<^verbatim>\<open>B\<close> succeeds and the second one
  raises \<^verbatim>\<open>ResourceNotFoundException\<close>: it is not absorbed as \<^verbatim>\<open>False\<close>.\<close>

theorem second_tombstone_delete_raises:
  "fst (delete tombstone_handler example_state ''B'' ''1.me'' whole_item) = Inr True
   \<and> fst (delete tombstone_handler
             (snd (delete tombstone_handler example_state ''B'' ''1.me'' whole_item))
             ''B'' ''1.me'' whole_item) = Inl ResourceNotFoundException"
  by code_simp

text \<open>
  C4 (as the code has it). A whole-item delete of an item that is already deleted (its
  deleted marker is stored and is not 0) leaves the resource table as it is. When the
  effective delete mode is not tombstone the failed condition is absorbed and the result is
  \<^verbatim>\<open>False\<close>; under tombstone mode the deleted item is not fetched and
  \<^verbatim>\<open>ResourceNotFoundException\<close> is raised.
\<close>

theorem delete_of_deleted_item:
  assumes wn: "well_named h"
    and st: "map_of (resource_table s) item_id = Some cur"
    and dl: "map_of cur (DELETED h) = Some d" and nz: "\<not> py_eq_0 d"
    and km: "del_Metadata kwargs = None"
    and kr: "del_Resource kwargs = None \<or> del_Resource kwargs = Some []"
  shows "(if set_delete_mode h kwargs = DELETE_MODE_TOMBSTONE
          then fst (delete h s item_id caller kwargs) = Inl ResourceNotFoundException
          else fst (delete h s item_id caller kwargs) = Inr False)
         \<and> resource_table (snd (delete h s item_id caller kwargs)) = resource_table s"
proof -
  let ?s1 = "if delete_mode h = DELETE_MODE_TOMBSTONE
              then s\<lparr>metadata_table := AList.delete (get_metaid item_id) (metadata_table s)\<rparr>
              else s"
  have rt: "resource_table ?s1 = resource_table s" by simp
  have d: "delete h s item_id caller kwargs = delete_resource h ?s1 item_id caller kwargs"
    by (rule delete_whole_item [OF km kr])
  show ?thesis
  proof (cases "set_delete_mode h kwargs = DELETE_MODE_TOMBSTONE")
    case True
    have "fetch_item h (resource_table ?s1) item_id False = None"
      using st dl nz by (simp add: fetch_item_def)
    with True have "delete_resource h ?s1 item_id caller kwargs = (Inl ResourceNotFoundException, ?s1)"
      by (simp add: delete_resource_def Let_def)
    with d True show ?thesis by simp
  next
    case False
    from wn have a: "DELETED h \<notin> set [LAST_UPDATE_DATE, LAST_UPDATED_BY, LAST_UPDATE_ACTION, ITEM_VERSION]"
      and b: "pk_name h \<notin> set [DELETED h, LAST_UPDATE_DATE, LAST_UPDATED_BY, LAST_UPDATE_ACTION, ITEM_VERSION]"
      by (auto simp add: well_named_def)
    from st have st1: "map_of (get_table ?s1 ResourceTable) item_id = Some cur" by simp
    from dl have ne: "map_of cur (DELETED h) \<noteq> None" by simp
    have "simple_update h ?s1 ResourceTable item_id ''SET #del = :del''
            caller (ACTION_DELETE h) = (Inr False, ?s1)"
      unfolding simple_update_def soft_delete_already_deleted [OF a b st1 ne] by simp
    with False have "delete_resource h ?s1 item_id caller kwargs = (Inr False, ?s1)"
      by (simp add: delete_resource_def Let_def)
    with d False show ?thesis by simp
  qed
qed

theorem delete_of_deleted_item_witness:
  "fst (delete example_handler example_state ''D'' ''1.me'' whole_item) = Inr False
   \<and> resource_table (snd (delete example_handler example_state ''D'' ''1.me'' whole_item))
       = resource_table example_state
   \<and> fst (delete tombstone_handler example_state ''D'' ''1.me'' whole_item)
       = Inl ResourceNotFoundException
   \<and> resource_table (snd (delete tombstone_handler example_state ''D'' ''1.me'' whole_item))
       = resource_table example_state"
proof -
  have wn: "well_named example_handler" "well_named tombstone_handler"
    by (simp_all add: well_named_def tombstone_handler_def example_handler_def field_names
          DELETE_MODE_TOMBSTONE_def)
  have st: "map_of (resource_table example_state) ''D'' = Some deleted_resource"
    by (simp add: example_state_def deleted_resource_def)
  have dl: "map_of deleted_resource (DELETED example_handler) = Some (N 1)"
    "map_of deleted_resource (DELETED tombstone_handler) = Some (N 1)"
    by (simp_all add: deleted_resource_def example_handler_def tombstone_handler_def)
  have nz: "\<not> py_eq_0 (N 1)" by simp
  have km: "del_Metadata whole_item = None"
    and kr: "del_Resource whole_item = None \<or> del_Resource whole_item = Some []"
    by (simp_all add: whole_item_def)
  have m1: "set_delete_mode example_handler whole_item \<noteq> DELETE_MODE_TOMBSTONE"
    by (simp add: set_delete_mode_def whole_item_def example_handler_def DELETE_MODE_TOMBSTONE_def)
  have m2: "set_delete_mode tombstone_handler whole_item = DELETE_MODE_TOMBSTONE"
    by (simp add: set_delete_mode_def whole_item_def tombstone_handler_def)
  from delete_of_deleted_item [OF wn(1) st dl(1) nz km kr, of "''1.me''"] m1
    delete_of_deleted_item [OF wn(2) st dl(2) nz km kr, of "''1.me''"] m2
  show ?thesis by simp
qed

subsection \<open>Soft delete and restore\<close>

text \<open>
  C5. \<^verbatim>\<open>restore\<close> tests and clears the attribute \<^verbatim>\<open>deleted\<close>, spelled out in its request,
  where the delete, the fetch and the searches use \<^verbatim>\<open>params.DELETED\<close>. In a namespace
  whose marker has another name (the specification calls it \<^verbatim>\<open>Deleted\<close>) the soft delete
  of a live item succeeds and stores the marker, and the restore that follows is refused with
  \<^verbatim>\<open>InvalidArgumentsException\<close>: the state stays as the delete left it, the marker is
  still 1 and the item stays hidden from the fetch. The item is a stored one without the
  marker, whose version is absent or a number and which has no attribute \<^verbatim>\<open>deleted\<close> of
  value 1 of its own.
\<close>

theorem restore_after_soft_delete_refused:
  assumes wn: "well_named h"
    and nm: "DELETED h \<noteq> ''deleted''"
    and st: "map_of (resource_table s) item_id = Some item"
    and live: "map_of item (DELETED h) = None"
    and own: "map_of item ''deleted'' \<noteq> Some (N 1)"
    and ver: "map_of item ITEM_VERSION = None \<or> (\<exists>m. map_of item ITEM_VERSION = Some (N m))"
    and km: "del_Metadata kwargs = None"
    and kr: "del_Resource kwargs = None \<or> del_Resource kwargs = Some []"
    and mode: "set_delete_mode h kwargs \<noteq> DELETE_MODE_TOMBSTONE"
  shows "\<exists>s1 deleted.
           delete h s item_id caller kwargs = (Inr True, s1) \<and>
           map_of (resource_table s1) item_id = Some deleted \<and>
           map_of deleted (DELETED h) = Some (N 1) \<and>
           fetch_item h (resource_table s1) item_id False = None \<and>
           restore h s1 item_id caller' = (Inl InvalidArgumentsException, s1)"
proof -
  let ?s0 = "if delete_mode h = DELETE_MODE_TOMBSTONE
              then s\<lparr>metadata_table := AList.delete (get_metaid item_id) (metadata_table s)\<rparr>
              else s"
  from wn have a: "DELETED h \<notin> set [LAST_UPDATE_DATE, LAST_UPDATED_BY, LAST_UPDATE_ACTION, ITEM_VERSION]"
    and b: "pk_name h \<notin> set [DELETED h, LAST_UPDATE_DATE, LAST_UPDATED_BY, LAST_UPDATE_ACTION, ITEM_VERSION]"
    and p: "pk_name h \<notin> set [''deleted'', TOMBSTONED, LAST_UPDATE_DATE, LAST_UPDATED_BY,
                               LAST_UPDATE_ACTION, ITEM_VERSION]"
    by (auto simp add: well_named_def)
  have d: "delete h s item_id caller kwargs = delete_resource h ?s0 item_id caller kwargs"
    by (rule delete_whole_item [OF km kr])
  from st have cur: "map_of (get_table ?s0 ResourceTable) item_id = Some item" by simp
  from soft_delete_succeeds [OF a b cur live ver] obtain mid where
    upd: "ddb_update_item (reserved_word ?s0) (pk_name h) (get_table ?s0 ResourceTable)
            (simple_update_args h (date_now ?s0) item_id ''SET #del = :del'' caller (ACTION_DELETE h))
          = Inr (mid, AList.update item_id mid (get_table ?s0 ResourceTable))"
    and mk: "map_of mid (DELETED h) = Some (N 1)"
    and keep: "\<forall>k. k \<notin> set [DELETED h, LAST_UPDATE_DATE, LAST_UPDATED_BY, LAST_UPDATE_ACTION,
                               ITEM_VERSION] \<longrightarrow> map_of mid k = map_of item k"
    by blast
  let ?s1 = "set_table ?s0 ResourceTable (AList.update item_id mid (get_table ?s0 ResourceTable))"
  have su: "simple_update h ?s0 ResourceTable item_id ''SET #del = :del'' caller (ACTION_DELETE h)
              = (Inr True, ?s1)"
    unfolding simple_update_def upd by simp
  with d mode have del: "delete h s item_id caller kwargs = (Inr True, ?s1)"
    by (simp add: delete_resource_def Let_def)
  have st1: "map_of (resource_table ?s1) item_id = Some mid"
    by (simp add: update_conv)
  from nm have "''deleted'' \<notin> set [DELETED h, LAST_UPDATE_DATE, LAST_UPDATED_BY,
      LAST_UPDATE_ACTION, ITEM_VERSION]"
    by (auto simp add: field_names)
  with keep have "map_of mid ''deleted'' = map_of item ''deleted''" by blast
  with own have own1: "map_of mid ''deleted'' \<noteq> Some (N 1)" by simp
  have hidden: "fetch_item h (resource_table ?s1) item_id False = None"
    unfolding fetch_item_def st1 by (simp add: mk)
  have forced: "fetch_item h (resource_table ?s1) item_id True = Some mid"
    unfolding fetch_item_def st1 by (simp add: mk)
  have res: "restore h ?s1 item_id caller' = (Inl InvalidArgumentsException, ?s1)"
    unfolding restore_def forced restore_refused [OF p st1 own1] by simp
  from del st1 mk hidden res show ?thesis by blast
qed

theorem restore_after_soft_delete_refused_witness:
  "fst (delete example_handler example_state ''A'' ''1.me'' whole_item) = Inr True
   \<and> fst (restore example_handler
             (snd (delete example_handler example_state ''A'' ''1.me'' whole_item)) ''A'' ''1.me'')
       = Inl InvalidArgumentsException
   \<and> map_of (resource_table (snd (delete example_handler example_state ''A'' ''1.me'' whole_item)))
         ''A''
       = Some [(''id'', S ''A''), (''color'', S ''red''), (''ItemVersion'', N 4),
               (''Deleted'', N 1), (''LastUpdateDate'', S ''2020-01-01''),
               (''LastUpdatedBy'', S ''1.me''), (''LastUpdateAction'', S ''delete'')]"
proof -
  have wn: "well_named example_handler"
    by (simp add: well_named_def example_handler_def field_names)
  have nm: "DELETED example_handler \<noteq> ''deleted''" by (simp add: example_handler_def)
  have st: "map_of (resource_table example_state) ''A''
              = Some [(''id'', S ''A''), (''color'', S ''red''), (''ItemVersion'', N 3)]"
    by (simp add: example_state_def)
  have live: "map_of [(''id'', S ''A''), (''color'', S ''red''), (''ItemVersion'', N 3)]
                (DELETED example_handler) = None"
    by (simp add: example_handler_def)
  have own: "map_of [(''id'', S ''A''), (''color'', S ''red''), (''ItemVersion'', N 3)] ''deleted''
               \<noteq> Some (N 1)"
    by simp
  have ver: "map_of [(''id'', S ''A''), (''color'', S ''red''), (''ItemVersion'', N 3)] ITEM_VERSION
               = None \<or>
             (\<exists>m. map_of [(''id'', S ''A''), (''color'', S ''red''), (''ItemVersion'', N 3)]
                     ITEM_VERSION = Some (N m))"
    by (simp add: field_names)
  have km: "del_Metadata whole_item = None"
    and kr: "del_Resource whole_item = None \<or> del_Resource whole_item = Some []"
    by (simp_all add: whole_item_def)
  have mode: "set_delete_mode example_handler whole_item \<noteq> DELETE_MODE_TOMBSTONE"
    by (simp add: set_delete_mode_def whole_item_def example_handler_def DELETE_MODE_TOMBSTONE_def)
  from restore_after_soft_delete_refused [OF wn nm st live own ver km kr mode, of "''1.me''" "''1.me''"]
  obtain s1 where
    del: "delete example_handler example_state ''A'' ''1.me'' whole_item = (Inr True, s1)"
    and res: "restore example_handler s1 ''A'' ''1.me'' = (Inl InvalidArgumentsException, s1)"
    by blast
  have rec: "map_of (resource_table (snd (delete example_handler example_state ''A'' ''1.me''
                 whole_item))) ''A''
       = Some [(''id'', S ''A''), (''color'', S ''red''), (''ItemVersion'', N 4),
               (''Deleted'', N 1), (''LastUpdateDate'', S ''2020-01-01''),
               (''LastUpdatedBy'', S ''1.me''), (''LastUpdateAction'', S ''delete'')]"
    by code_simp
  from del res rec show ?thesis by simp
qed


text \<open>In a namespace whose marker is the attribute \<^verbatim>\<open>deleted\<close> the restore after a soft
  delete of resource \<^verbatim>\<open>A\<close> succeeds. The stored record then holds the marker at 0, the
  version incremented twice and the last-update fields of the restore.\<close>

lemma soft_delete_restore_with_marker_deleted:
  "map_of (resource_table example_state) ''A''
     = Some [(''id'', S ''A''), (''color'', S ''red''), (''ItemVersion'', N 3)]
   \<and> (case delete (example_handler\<lparr>DELETED := ''deleted''\<rparr>) example_state ''A'' ''1.me''
              whole_item of
         (r1, s1) \<Rightarrow>
           (case restore (example_handler\<lparr>DELETED := ''deleted''\<rparr>) s1 ''A'' ''1.me'' of
              (r2, s2) \<Rightarrow> (r1, r2, map_of (resource_table s2) ''A'')))
       = (Inr True, Inr (),
          Some [(''id'', S ''A''), (''color'', S ''red''), (''ItemVersion'', N 5),
                (''deleted'', N 0), (''LastUpdateDate'', S ''2020-01-01''),
                (''LastUpdatedBy'', S ''1.me''), (''LastUpdateAction'', S ''restore'')])"
proof -
  have a: "map_of (resource_table example_state) ''A''
     = Some [(''id'', S ''A''), (''color'', S ''red''), (''ItemVersion'', N 3)]"
    by (simp add: example_state_def)
  have b: "(case delete (example_handler\<lparr>DELETED := ''deleted''\<rparr>) example_state ''A'' ''1.me''
              whole_item of
         (r1, s1) \<Rightarrow>
           (case restore (example_handler\<lparr>DELETED := ''deleted''\<rparr>) s1 ''A'' ''1.me'' of
              (r2, s2) \<Rightarrow> (r1, r2, map_of (resource_table s2) ''A'')))
       = (Inr True, Inr (),
          Some [(''id'', S ''A''), (''color'', S ''red''), (''ItemVersion'', N 5),
                (''deleted'', N 0), (''LastUpdateDate'', S ''2020-01-01''),
                (''LastUpdatedBy'', S ''1.me''), (''LastUpdateAction'', S ''restore'')])"
    by code_simp
  from a b show ?thesis by blast
qed

subsection \<open>Tombstones\<close>


end
